theory Spec2Isabelle
  imports Complex_Main "HOL-Library.AList"
begin

section \<open>The data loader of \<^verbatim>\<open>src/data_loader.py\<close>\<close>

text \<open>
  The module has five functions over tables read by \<^verbatim>\<open>pandas.read_csv\<close>:
  \<^verbatim>\<open>load_prices\<close>, \<^verbatim>\<open>load_storage\<close>, \<^verbatim>\<open>load_efficiency\<close>,
  \<^verbatim>\<open>load_plant_capacity\<close> and \<^verbatim>\<open>load_demand\<close>. Each is modelled as a function
  from the parsed table (what \<^verbatim>\<open>read_csv\<close> returns) to \<open>error + result\<close>, with one
  branch for every \<^verbatim>\<open>raise\<close> of the source. The operations of pandas that the
  functions call (date offsets, label slicing, resampling, numeric coercion) are
  modelled here after the behaviour pandas documents for them.

  Conventions of the model:
  \<^item> floating-point cells are exact reals, and a missing value (NaN) is \<open>None\<close>;
  \<^item> text is ASCII: \<^verbatim>\<open>str.lower\<close> maps \<open>A..Z\<close> to \<open>a..z\<close> and
    \<^verbatim>\<open>str.strip\<close> removes ASCII white space;
  \<^item> the time index is timezone-naive (for \<^verbatim>\<open>load_demand\<close> it is the index after
    the source's conversion to naive UTC).
\<close>

subsection \<open>Python strings\<close>

definition upper_chars :: string where
  "upper_chars = ''ABCDEFGHIJKLMNOPQRSTUVWXYZ''"

definition lower_chars :: string where
  "lower_chars = ''abcdefghijklmnopqrstuvwxyz''"

definition lower_char :: "char \<Rightarrow> char" where
  "lower_char c = (case map_of (zip upper_chars lower_chars) c of Some d \<Rightarrow> d | None \<Rightarrow> c)"

text \<open>\<^verbatim>\<open>s.lower()\<close>\<close>

definition py_lower :: "string \<Rightarrow> string" where
  "py_lower s = map lower_char s"

text \<open>The ASCII characters for which \<^verbatim>\<open>str.isspace\<close> holds.\<close>

definition is_space :: "char \<Rightarrow> bool" where
  "is_space c \<longleftrightarrow> c \<in> set [CHR '' '', CHR 0x09, CHR 0x0A, CHR 0x0B, CHR 0x0C, CHR 0x0D,
     CHR 0x1C, CHR 0x1D, CHR 0x1E, CHR 0x1F]"

text \<open>\<^verbatim>\<open>s.strip()\<close>\<close>

definition py_strip :: "string \<Rightarrow> string" where
  "py_strip s = rev (dropWhile is_space (rev (dropWhile is_space s)))"

text \<open>Position of a column name in a list of names (the first one, \<open>length\<close> if absent).\<close>

definition index_of :: "'a \<Rightarrow> 'a list \<Rightarrow> nat" where
  "index_of x xs = length (takeWhile (\<lambda>y. y \<noteq> x) xs)"

subsection \<open>Timestamps and date offsets\<close>

text \<open>
  A \<^verbatim>\<open>pandas.Timestamp\<close> by its calendar fields; \<open>nanos\<close> is the time of day in
  nanoseconds since midnight. Timestamps compare chronologically, which is the
  lexicographic order of the fields.
\<close>

record timestamp =
  year :: int
  month :: nat
  day :: nat
  nanos :: nat

definition ts_less :: "timestamp \<Rightarrow> timestamp \<Rightarrow> bool" where
  "ts_less a b \<longleftrightarrow>
     year a < year b \<or> (year a = year b \<and>
       (month a < month b \<or> (month a = month b \<and>
         (day a < day b \<or> (day a = day b \<and> nanos a < nanos b)))))"

definition ts_le :: "timestamp \<Rightarrow> timestamp \<Rightarrow> bool" where
  "ts_le a b \<longleftrightarrow> ts_less a b \<or> a = b"

definition ns_per_hour :: nat where
  "ns_per_hour = 3600000000000"

definition ns_per_day :: nat where
  "ns_per_day = 24 * ns_per_hour"

text \<open>A date at midnight, and a date at a full hour.\<close>

definition date :: "int \<Rightarrow> nat \<Rightarrow> nat \<Rightarrow> timestamp" where
  "date y m d = \<lparr>year = y, month = m, day = d, nanos = 0\<rparr>"

definition date_hour :: "int \<Rightarrow> nat \<Rightarrow> nat \<Rightarrow> nat \<Rightarrow> timestamp" where
  "date_hour y m d h = \<lparr>year = y, month = m, day = d, nanos = h * ns_per_hour\<rparr>"

definition is_leap :: "int \<Rightarrow> bool" where
  "is_leap y \<longleftrightarrow> (y mod 4 = 0 \<and> y mod 100 \<noteq> 0) \<or> y mod 400 = 0"

definition days_in_month :: "int \<Rightarrow> nat \<Rightarrow> nat" where
  "days_in_month y m =
     (if m = 2 then (if is_leap y then 29 else 28)
      else if m = 4 \<or> m = 6 \<or> m = 9 \<or> m = 11 then 30 else 31)"

text \<open>
  A well-formed timestamp: a month of the year, a day of that month, a time of day.
\<close>

definition valid_ts :: "timestamp \<Rightarrow> bool" where
  "valid_ts t \<longleftrightarrow> 1 \<le> month t \<and> month t \<le> 12 \<and> 1 \<le> day t \<and>
     day t \<le> days_in_month (year t) (month t) \<and> nanos t < ns_per_day"

text \<open>
  \<^verbatim>\<open>ts + pd.offsets.MonthEnd(n)\<close>. pandas first adjusts \<open>n\<close> by the position of the
  day in its month (\<^verbatim>\<open>roll_convention\<close>): with \<open>n > 0\<close>, a day before the month's
  last day uses up one step to reach the end of its own month, and a day that is
  already the last day does not. It then moves that many months and sets the day
  to the last day of the month reached (\<^verbatim>\<open>shift_month(..., "end")\<close>). The time of
  day is kept.
\<close>

definition roll_convention :: "nat \<Rightarrow> int \<Rightarrow> nat \<Rightarrow> int" where
  "roll_convention other n compare =
     (if n > 0 \<and> other < compare then n - 1
      else if n \<le> 0 \<and> other > compare then n + 1
      else n)"

definition shift_month_end :: "timestamp \<Rightarrow> int \<Rightarrow> timestamp" where
  "shift_month_end stamp months =
     (let k = 12 * year stamp + (int (month stamp) - 1) + months;
          y = k div 12;
          m = nat (k mod 12) + 1
      in stamp\<lparr>year := y, month := m, day := days_in_month y m\<rparr>)"

definition add_MonthEnd :: "int \<Rightarrow> timestamp \<Rightarrow> timestamp" where
  "add_MonthEnd n ts =
     shift_month_end ts
       (roll_convention (day ts) n (days_in_month (year ts) (month ts)))"

text \<open>\<^verbatim>\<open>ts + pd.offsets.Hour(h)\<close>: \<open>h\<close> hours later, carrying into the next days.\<close>

definition next_day :: "timestamp \<Rightarrow> timestamp" where
  "next_day t =
     (if day t < days_in_month (year t) (month t) then t\<lparr>day := day t + 1\<rparr>
      else if month t < 12 then t\<lparr>month := month t + 1, day := 1\<rparr>
      else t\<lparr>year := year t + 1, month := 1, day := 1\<rparr>)"

definition add_Hour :: "nat \<Rightarrow> timestamp \<Rightarrow> timestamp" where
  "add_Hour h t =
     (let n = nanos t + h * ns_per_hour
      in ((next_day ^^ (n div ns_per_day)) t)\<lparr>nanos := n mod ns_per_day\<rparr>)"

text \<open>
  \<^verbatim>\<open>index.min()\<close> and \<^verbatim>\<open>index.max()\<close>; \<open>None\<close> is \<^verbatim>\<open>NaT\<close>, the result on an
  empty index.
\<close>

definition ts_min :: "timestamp \<Rightarrow> timestamp \<Rightarrow> timestamp" where
  "ts_min a b = (if ts_less b a then b else a)"

definition ts_max :: "timestamp \<Rightarrow> timestamp \<Rightarrow> timestamp" where
  "ts_max a b = (if ts_less a b then b else a)"

fun index_min :: "timestamp list \<Rightarrow> timestamp option" where
  "index_min [] = None"
| "index_min (t # ts) = Some (fold ts_min ts t)"

fun index_max :: "timestamp list \<Rightarrow> timestamp option" where
  "index_max [] = None"
| "index_max (t # ts) = Some (fold ts_max ts t)"

subsection \<open>Tables, cells and errors\<close>

text \<open>
  A cell of a parsed file, by what \<^verbatim>\<open>pd.to_numeric(..., errors="coerce")\<close> makes of
  it: \<open>Num x\<close> is a cell that denotes the number \<open>x\<close>, \<open>Text s\<close> a cell whose text
  is not a number, \<open>NA\<close> an empty cell. Coercion never raises: it maps the last two
  to NaN.
\<close>

datatype cell = Num real | Text string | NA

fun to_numeric :: "cell \<Rightarrow> real option" where
  "to_numeric (Num x) = Some x"
| "to_numeric (Text s) = None"
| "to_numeric NA = None"

text \<open>\<^verbatim>\<open>read_csv\<close> fills a row that is shorter than the header with empty cells.\<close>

definition cell_at :: "cell list \<Rightarrow> nat \<Rightarrow> cell" where
  "cell_at cs i = (if i < length cs then cs ! i else NA)"

text \<open>
  The result of \<^verbatim>\<open>pd.read_csv(file_path, parse_dates=[0])\<close> followed by
  \<^verbatim>\<open>set_index\<close> on column 0: the name of column 0, the names of the other columns
  (\<^verbatim>\<open>df.columns\<close> after \<^verbatim>\<open>set_index\<close>), and the rows, each with its parsed
  timestamp and its cells. \<^verbatim>\<open>df.shape[1]\<close> before \<^verbatim>\<open>set_index\<close> is
  \<open>1 + length (columns df)\<close>.
\<close>

record table =
  date_col :: string
  columns :: "string list"
  rows :: "(timestamp \<times> cell list) list"

text \<open>The result of \<^verbatim>\<open>pd.read_csv(file_path)\<close>: a header and rows of cells.\<close>

record plain_table =
  pcolumns :: "string list"
  prows :: "cell list list"

text \<open>
  A returned DataFrame: column names and, for every index label, the row of
  floating-point values (\<open>None\<close> is NaN).
\<close>

record frame =
  frame_columns :: "string list"
  frame_rows :: "(timestamp \<times> real option list) list"

text \<open>
  Every \<^verbatim>\<open>raise\<close> of the module itself raises \<^verbatim>\<open>ValueError\<close>; the sites differ by their
  message. A message is kept by its site and by the values formatted into it:
  \<^item> \<open>NeedsFuelColumns\<close>: "CSV must contain a date column plus at least the fuel
    columns.";
  \<^item> \<open>MissingRequiredColumns missing available\<close>: "Missing required columns:
    \<open>missing\<close>. Available: \<open>available\<close>";
  \<^item> \<open>MustContainColumns file required\<close>: "\<open>file\<close> must contain columns:
    \<open>required\<close>";
  \<^item> \<open>NeedsZoneColumn\<close>: "CSV must contain a timestamp column plus at least one
    zone column.";
  \<^item> \<open>ZoneNotFound zone available\<close>: "Zone '\<open>zone\<close>' not found in CSV columns.
    Available (sample): \<open>available\<close>", the names joined by ", ";
  \<^item> \<open>StartAfterEnd\<close>: "`start` must be less than or equal to `end`.";
  \<^item> \<open>NoData\<close>: "No data in the selected date range.".
\<close>

datatype message =
    NeedsFuelColumns
  | MissingRequiredColumns "string list" "string list"
  | MustContainColumns string "string list"
  | NeedsZoneColumn
  | ZoneNotFound string "string list"
  | StartAfterEnd
  | NoData

text \<open>
  \<^verbatim>\<open>KeyError\<close> is what \<^verbatim>\<open>df.loc\<close> raises when it cannot locate a bound of the slice.
\<close>

datatype error = ValueError message | KeyError

subsection \<open>The date window\<close>

text \<open>
  Lines 60-70 and 172-182: \<^verbatim>\<open>start_ts\<close> is the given start or the index minimum;
  \<^verbatim>\<open>end_ts\<close> is \<^verbatim>\<open>pd.to_datetime(end) + MonthEnd(1) + Hour(23)\<close> for a given end,
  or the index maximum. The arguments are given as timestamps already
  (\<^verbatim>\<open>pd.to_datetime\<close> of the argument), \<open>None\<close> when the argument is omitted.
\<close>

definition resolve_start :: "timestamp option \<Rightarrow> timestamp list \<Rightarrow> timestamp option" where
  "resolve_start start idx = (case start of Some s \<Rightarrow> Some s | None \<Rightarrow> index_min idx)"

definition resolve_end :: "timestamp option \<Rightarrow> timestamp list \<Rightarrow> timestamp option" where
  "resolve_end end' idx =
     (case end' of Some e \<Rightarrow> Some (add_Hour 23 (add_MonthEnd 1 e)) | None \<Rightarrow> index_max idx)"

text \<open>\<^verbatim>\<open>start_ts > end_ts\<close>; a comparison with \<^verbatim>\<open>NaT\<close> is false.\<close>

definition ts_gt :: "timestamp option \<Rightarrow> timestamp option \<Rightarrow> bool" where
  "ts_gt a b = (case (a, b) of (Some x, Some y) \<Rightarrow> ts_less y x | _ \<Rightarrow> False)"

text \<open>
  \<^verbatim>\<open>index.is_monotonic_increasing\<close>: every timestamp is at most the ones after
  it; \<^verbatim>\<open>index.is_monotonic_decreasing\<close>: at least the ones after it.
\<close>

definition monotonic_increasing :: "timestamp list \<Rightarrow> bool" where
  "monotonic_increasing idx = sorted_wrt ts_le idx"

definition monotonic_decreasing :: "timestamp list \<Rightarrow> bool" where
  "monotonic_decreasing idx = sorted_wrt (\<lambda>a b. ts_le b a) idx"

text \<open>
  \<^verbatim>\<open>Index.get_slice_bound(key, side)\<close>: the position at which a slice that starts
  (left) or ends (right) at the key cuts the index. pandas looks the key up and,
  when it is absent and the index is monotonic, falls back on a binary search. On
  a monotonic index both find the same position: in an ascending index the number
  of timestamps before the key (left) or up to the key (right), in a descending
  index the number of timestamps after the key (left) or from the key on (right).
  On an index that is not monotonic the key has to occur in the index, once or at
  adjacent positions, and the slice starts at its first and ends after its last
  occurrence; otherwise the lookup raises \<^verbatim>\<open>KeyError\<close>, which is \<open>None\<close> here.
\<close>

datatype side = Left | Right

definition occurrences :: "timestamp \<Rightarrow> timestamp list \<Rightarrow> nat list" where
  "occurrences key idx = filter (\<lambda>i. idx ! i = key) [0..<length idx]"

definition contiguous :: "nat list \<Rightarrow> bool" where
  "contiguous ps \<longleftrightarrow> ps = [hd ps..<hd ps + length ps]"

definition get_slice_bound :: "timestamp list \<Rightarrow> timestamp \<Rightarrow> side \<Rightarrow> nat option" where
  "get_slice_bound idx key side =
     (if monotonic_increasing idx then
        Some (length (filter
          (\<lambda>t. case side of Left \<Rightarrow> ts_less t key | Right \<Rightarrow> ts_le t key) idx))
      else if monotonic_decreasing idx then
        Some (length (filter
          (\<lambda>t. case side of Left \<Rightarrow> ts_less key t | Right \<Rightarrow> ts_le key t) idx))
      else
        (case occurrences key idx of
           [] \<Rightarrow> None
         | p # ps \<Rightarrow>
             if contiguous (p # ps)
             then Some (case side of Left \<Rightarrow> p | Right \<Rightarrow> last (p # ps) + 1)
             else None))"

text \<open>
  \<^verbatim>\<open>df.loc[start_ts:end_ts]\<close> with timestamps as bounds: the rows from the position
  of the start to the position of the end, none when the first position is not
  before the second. A bound is \<^verbatim>\<open>NaT\<close> only when the table has no rows, and the
  slice is empty then.
\<close>

definition loc_slice ::
  "timestamp option \<Rightarrow> timestamp option \<Rightarrow> (timestamp \<times> 'a) list
     \<Rightarrow> error + (timestamp \<times> 'a) list" where
  "loc_slice a b rs =
     (case (a, b) of
        (Some x, Some y) \<Rightarrow>
          (case (get_slice_bound (map fst rs) x Left, get_slice_bound (map fst rs) y Right) of
             (Some i, Some j) \<Rightarrow> Inr (take (j - i) (drop i rs))
           | _ \<Rightarrow> Inl KeyError)
      | _ \<Rightarrow> Inr [])"

subsection \<open>Resampling\<close>

text \<open>
  A resampling rule (the \<^verbatim>\<open>resample_method\<close> alias) cuts the time axis into
  consecutive buckets: \<open>bucket t\<close> is the position of the bucket that holds \<open>t\<close>,
  \<open>label k\<close> the timestamp under which bucket \<open>k\<close> is reported.
\<close>

record rule =
  bucket :: "timestamp \<Rightarrow> int"
  label :: "int \<Rightarrow> timestamp"

definition month_index :: "timestamp \<Rightarrow> int" where
  "month_index t = 12 * year t + (int (month t) - 1)"

definition month_end_label :: "int \<Rightarrow> timestamp" where
  "month_end_label k =
     (let y = k div 12; m = nat (k mod 12) + 1 in date y m (days_in_month y m))"

definition month_start_label :: "int \<Rightarrow> timestamp" where
  "month_start_label k = date (k div 12) (nat (k mod 12) + 1) 1"

text \<open>
  The default \<^verbatim>\<open>"ME"\<close>: a bucket is a calendar month, reported under the
  midnight of its last day. \<^verbatim>\<open>"MS"\<close> reports the same buckets under the first day.
\<close>

definition ME :: rule where
  "ME = \<lparr>bucket = month_index, label = month_end_label\<rparr>"

definition MS :: rule where
  "MS = \<lparr>bucket = month_index, label = month_start_label\<rparr>"

text \<open>
  pandas lays the buckets out from the one of the earliest timestamp to the one of
  the latest, with the buckets in between whether or not a row falls in them.
\<close>

definition bucket_range :: "rule \<Rightarrow> timestamp list \<Rightarrow> int list" where
  "bucket_range r idx =
     (case (index_min idx, index_max idx) of
        (Some a, Some b) \<Rightarrow> [bucket r a .. bucket r b]
      | _ \<Rightarrow> [])"

definition in_bucket :: "rule \<Rightarrow> int \<Rightarrow> (timestamp \<times> 'a) list \<Rightarrow> (timestamp \<times> 'a) list" where
  "in_bucket r k rs = filter (\<lambda>row. bucket r (fst row) = k) rs"

text \<open>The values of a reduction's input that are not NaN.\<close>

fun present :: "real option list \<Rightarrow> real list" where
  "present [] = []"
| "present (None # vs) = present vs"
| "present (Some x # vs) = x # present vs"

text \<open>
  \<^verbatim>\<open>.sum()\<close> skips NaN and is 0 on nothing; \<^verbatim>\<open>.mean()\<close> skips NaN and is NaN on
  nothing. The sum is the exact one: pandas adds an all-integer column in 64-bit
  integers, which wrap around, so the property of the sums is stated for sums
  within that range.
\<close>

definition nan_sum :: "real option list \<Rightarrow> real option" where
  "nan_sum vs = Some (sum_list (present vs))"

definition nan_mean :: "real option list \<Rightarrow> real option" where
  "nan_mean vs =
     (if present vs = [] then None
      else Some (sum_list (present vs) / real (length (present vs))))"

text \<open>\<^verbatim>\<open>series.resample(rule).agg()\<close>\<close>

definition resample ::
  "rule \<Rightarrow> (real option list \<Rightarrow> real option) \<Rightarrow> (timestamp \<times> real option) list
     \<Rightarrow> (timestamp \<times> real option) list" where
  "resample r agg s =
     map (\<lambda>k. (label r k, agg (map snd (in_bucket r k s)))) (bucket_range r (map fst s))"

text \<open>\<^verbatim>\<open>df.resample(rule).agg()\<close>: the reduction of every column, bucket by bucket.\<close>

definition value_at :: "real option list \<Rightarrow> nat \<Rightarrow> real option" where
  "value_at vs i = (if i < length vs then vs ! i else None)"

definition resample_frame ::
  "rule \<Rightarrow> (real option list \<Rightarrow> real option) \<Rightarrow> nat \<Rightarrow> (timestamp \<times> real option list) list
     \<Rightarrow> (timestamp \<times> real option list) list" where
  "resample_frame r agg n rs =
     map (\<lambda>k. (label r k,
                map (\<lambda>i. agg (map (\<lambda>row. value_at (snd row) i) (in_bucket r k rs))) [0..<n]))
       (bucket_range r (map fst rs))"

subsection \<open>\<^verbatim>\<open>load_prices\<close>\<close>

text \<open>Line 49: \<^verbatim>\<open>df.columns.str.strip().str.lower()\<close>\<close>

definition normalize_columns :: "string list \<Rightarrow> string list" where
  "normalize_columns cols = map (\<lambda>c. py_lower (py_strip c)) cols"

text \<open>
  Lines 52-53: \<^verbatim>\<open>sorted(required - set(df.columns))\<close>; the required names are
  listed in ascending order, so the names kept are sorted.
\<close>

definition required :: "string list" where
  "required = [''coal'', ''gas'', ''oil'']"

definition missing_required :: "string list \<Rightarrow> string list" where
  "missing_required cols = filter (\<lambda>r. r \<notin> set cols) required"

text \<open>Line 58: \<^verbatim>\<open>df.apply(pd.to_numeric, errors="coerce")\<close>, every column.\<close>

definition coerce_all :: "nat \<Rightarrow> (timestamp \<times> cell list) list \<Rightarrow> (timestamp \<times> real option list) list" where
  "coerce_all n rs = map (\<lambda>row. (fst row, map (\<lambda>i. to_numeric (cell_at (snd row) i)) [0..<n])) rs"

definition load_prices ::
  "table \<Rightarrow> timestamp option \<Rightarrow> timestamp option \<Rightarrow> rule \<Rightarrow> error + frame" where
  "load_prices df start end' resample_method =
     (if 1 + length (columns df) < 2 then Inl (ValueError NeedsFuelColumns)
      else
        let cols = normalize_columns (columns df);
            missing = missing_required cols
        in
          if missing \<noteq> [] then Inl (ValueError (MissingRequiredColumns missing cols))
          else
            let numeric = coerce_all (length cols) (rows df);
                start_ts = resolve_start start (map fst numeric);
                end_ts = resolve_end end' (map fst numeric)
            in
              if ts_gt start_ts end_ts then Inl (ValueError StartAfterEnd)
              else
                case loc_slice start_ts end_ts numeric of
                  Inl e \<Rightarrow> Inl e
                | Inr window \<Rightarrow>
                    if window = [] then Inl (ValueError NoData)
                    else Inr \<lparr>frame_columns = cols,
                              frame_rows =
                                resample_frame resample_method nan_mean (length cols) window\<rparr>)"

subsection \<open>\<^verbatim>\<open>load_storage\<close>, \<^verbatim>\<open>load_efficiency\<close>, \<^verbatim>\<open>load_plant_capacity\<close>\<close>

text \<open>\<^verbatim>\<open>df[name]\<close>: the cells of the column of that name, in row order.\<close>

definition column :: "plain_table \<Rightarrow> string \<Rightarrow> cell list" where
  "column df name = map (\<lambda>cs. cell_at cs (index_of name (pcolumns df))) (prows df)"

text \<open>
  \<^verbatim>\<open>dict(pairs)\<close>: a Python dict keeps its keys in the order of their first
  insertion, and a later pair with a key that is present replaces the value in
  place.
\<close>

definition py_dict :: "('k \<times> 'v) list \<Rightarrow> ('k \<times> 'v) list" where
  "py_dict ps = fold (\<lambda>p d. AList.update (fst p) (snd p) d) ps []"

text \<open>\<^verbatim>\<open>required_cols.issubset(df.columns)\<close>\<close>

definition issubset :: "string list \<Rightarrow> string list \<Rightarrow> bool" where
  "issubset required_cols cols = list_all (\<lambda>c. c \<in> set cols) required_cols"

definition load_storage :: "plain_table \<Rightarrow> error + (cell \<times> cell) list" where
  "load_storage df =
     (if \<not> issubset [''fuel'', ''capacity''] (pcolumns df)
      then Inl (ValueError (MustContainColumns ''storage.csv'' [''fuel'', ''capacity'']))
      else Inr (py_dict (zip (column df ''fuel'') (column df ''capacity''))))"

definition load_efficiency :: "plain_table \<Rightarrow> error + (cell \<times> cell) list" where
  "load_efficiency df =
     (if \<not> issubset [''fuel'', ''efficiency''] (pcolumns df)
      then Inl (ValueError (MustContainColumns ''efficiency.csv'' [''fuel'', ''efficiency'']))
      else Inr (py_dict (zip (column df ''fuel'') (column df ''efficiency''))))"

definition load_plant_capacity :: "plain_table \<Rightarrow> error + (cell \<times> cell) list" where
  "load_plant_capacity df =
     (if \<not> issubset [''fuel'', ''capacity''] (pcolumns df)
      then Inl (ValueError (MustContainColumns ''plant_capacity.csv'' [''fuel'', ''capacity'']))
      else Inr (py_dict (zip (column df ''fuel'') (column df ''capacity''))))"

subsection \<open>\<^verbatim>\<open>load_demand\<close>\<close>

text \<open>
  Line 159: \<^verbatim>\<open>{col.lower().strip(): col for col in df.columns}\<close>; a later column
  with the same key replaces an earlier one.
\<close>

definition col_map :: "string list \<Rightarrow> (string \<rightharpoonup> string)" where
  "col_map cols = fold (\<lambda>col m. m(py_strip (py_lower col) \<mapsto> col)) cols Map.empty"

text \<open>
  Line 164: \<^verbatim>\<open>list(df.columns[:20]) + (["..."] if len(df.columns) > 20 else [])\<close>
\<close>

definition available_sample :: "string list \<Rightarrow> string list" where
  "available_sample cols = take 20 cols @ (if length cols > 20 then [''...''] else [])"

text \<open>
  Lines 170 and 193: the selected column, coerced to numbers, as a series over the
  index.
\<close>

definition selected_series :: "string \<Rightarrow> table \<Rightarrow> (timestamp \<times> real option) list" where
  "selected_series selected_col df =
     map (\<lambda>row. (fst row, to_numeric (cell_at (snd row) (index_of selected_col (columns df)))))
       (rows df)"

text \<open>Lines 196 and 199: \<^verbatim>\<open>(series * supply_factor).to_frame(name=selected_col)\<close>\<close>

definition scale_to_frame :: "string \<Rightarrow> real \<Rightarrow> (timestamp \<times> real option) list \<Rightarrow> frame" where
  "scale_to_frame selected_col supply_factor s =
     \<lparr>frame_columns = [selected_col],
      frame_rows = map (\<lambda>p. (fst p, [map_option (\<lambda>x. x * supply_factor) (snd p)])) s\<rparr>"

definition load_demand ::
  "table \<Rightarrow> timestamp option \<Rightarrow> timestamp option \<Rightarrow> rule \<Rightarrow> string \<Rightarrow> real \<Rightarrow> error + frame" where
  "load_demand df start end' resample_method zone supply_factor =
     (if 1 + length (columns df) < 2 then Inl (ValueError NeedsZoneColumn)
      else
        case col_map (columns df) (py_strip (py_lower zone)) of
          None \<Rightarrow> Inl (ValueError (ZoneNotFound zone (available_sample (columns df))))
        | Some selected_col \<Rightarrow>
            let series = selected_series selected_col df;
                start_ts = resolve_start start (map fst series);
                end_ts = resolve_end end' (map fst series)
            in
              if ts_gt start_ts end_ts then Inl (ValueError StartAfterEnd)
              else
                case loc_slice start_ts end_ts series of
                  Inl e \<Rightarrow> Inl e
                | Inr window \<Rightarrow>
                    if window = [] then Inl (ValueError NoData)
                    else Inr (scale_to_frame selected_col supply_factor
                                (resample resample_method nan_sum window)))"

subsection \<open>Vocabulary of the properties\<close>

text \<open>
  \<open>in_window lo hi t\<close>: the timestamp lies in the closed date window. The raw
  values of a bucket are the numbers that column \<open>i\<close> of the parsed file holds in
  the rows of the window that fall into bucket \<open>k\<close>; a cell that is not a number
  contributes nothing. \<open>mean\<close> is the arithmetic mean, missing on no values.
\<close>

definition in_window :: "timestamp \<Rightarrow> timestamp \<Rightarrow> timestamp \<Rightarrow> bool" where
  "in_window lo hi t \<longleftrightarrow> ts_le lo t \<and> ts_le t hi"

text \<open>
  The rows whose timestamp lies between the resolved bounds; on an ascending
  index this is what \<^verbatim>\<open>df.loc\<close> selects.
\<close>

definition window_rows ::
  "timestamp option \<Rightarrow> timestamp option \<Rightarrow> (timestamp \<times> 'a) list \<Rightarrow> (timestamp \<times> 'a) list" where
  "window_rows a b rs =
     (case (a, b) of
        (Some x, Some y) \<Rightarrow> filter (\<lambda>r. ts_le x (fst r) \<and> ts_le (fst r) y) rs
      | _ \<Rightarrow> [])"

definition window_index :: "table \<Rightarrow> timestamp \<Rightarrow> timestamp \<Rightarrow> timestamp list" where
  "window_index df lo hi = filter (in_window lo hi) (map fst (rows df))"

fun numbers :: "cell list \<Rightarrow> real list" where
  "numbers [] = []"
| "numbers (Num x # cs) = x # numbers cs"
| "numbers (Text s # cs) = numbers cs"
| "numbers (NA # cs) = numbers cs"

definition raw_values :: "table \<Rightarrow> nat \<Rightarrow> timestamp \<Rightarrow> timestamp \<Rightarrow> rule \<Rightarrow> int \<Rightarrow> real list" where
  "raw_values df i lo hi r k =
     numbers (map (\<lambda>row. cell_at (snd row) i)
       (filter (\<lambda>row. in_window lo hi (fst row) \<and> bucket r (fst row) = k) (rows df)))"

definition mean :: "real list \<Rightarrow> real option" where
  "mean xs = (if xs = [] then None else Some (sum_list xs / real (length xs)))"

text \<open>
  \<open>empty_window a b idx\<close>: no timestamp of the index lies between the resolved
  bounds (a bound that is \<^verbatim>\<open>NaT\<close> comes from an index without timestamps).
  \<open>in_int64 x\<close>: the number lies in the range of a 64-bit integer, in which the sum
  of an all-integer column is computed.
\<close>

definition empty_window :: "timestamp option \<Rightarrow> timestamp option \<Rightarrow> timestamp list \<Rightarrow> bool" where
  "empty_window a b idx =
     (case (a, b) of
        (Some lo, Some hi) \<Rightarrow> filter (in_window lo hi) idx = []
      | _ \<Rightarrow> True)"

definition in_int64 :: "real \<Rightarrow> bool" where
  "in_int64 x \<longleftrightarrow> - 9223372036854775808 \<le> x \<and> x \<le> 9223372036854775807"

subsection \<open>Example inputs\<close>

text \<open>
  An hourly demand file around the end of January 2024, with the last hour of
  February and the first of March.
\<close>

definition hourly_demand :: table where
  "hourly_demand =
     \<lparr>date_col = ''utc_timestamp'', columns = [''DK_1'', ''DK_2''],
      rows = [(date_hour 2024 1 31 22, [Num 7, Num 10]),
              (date_hour 2024 1 31 23, [Num 8, Num 20]),
              (date_hour 2024 2 1 0, [Num 9, Num 40]),
              (date_hour 2024 2 29 23, [Num 5, Num 60]),
              (date_hour 2024 3 1 0, [Num 6, Num 80])]\<rparr>"

text \<open>
  A daily demand file whose February cells of zone DK_2 are not numbers, and what
  \<^verbatim>\<open>load_demand\<close> returns for it with \<^verbatim>\<open>zone="dk_2"\<close> and
  \<^verbatim>\<open>supply_factor=0.5\<close>.
\<close>

definition demand_with_gap :: table where
  "demand_with_gap =
     \<lparr>date_col = ''utc_timestamp'', columns = [''DK_1'', ''DK_2''],
      rows = [(date 2024 1 10, [Num 1, Num 10]),
              (date 2024 1 20, [Num 2, Num 30]),
              (date 2024 2 5, [Num 3, Text ''n/a'']),
              (date 2024 2 6, [Num 4, NA]),
              (date 2024 3 1, [Num 5, Num 8])]\<rparr>"

definition demand_with_gap_out :: frame where
  "demand_with_gap_out =
     \<lparr>frame_columns = [''DK_2''],
      frame_rows = [(date 2024 1 31, [Some 20]), (date 2024 2 29, [Some 0]),
                    (date 2024 3 31, [Some 4])]\<rparr>"

text \<open>
  A price file without an oil column, and a price file with the three required
  columns and a lignite column, the names in mixed case and padded.
\<close>

definition prices_no_oil :: table where
  "prices_no_oil =
     \<lparr>date_col = ''month'', columns = ['' Coal'', ''GAS''],
      rows = [(date 2024 1 1, [Num 100, Num 30])]\<rparr>"

definition fuel_prices :: table where
  "fuel_prices =
     \<lparr>date_col = ''month'', columns = [''Coal'', '' gas '', ''OIL'', ''Lignite''],
      rows = [(date 2024 1 1, [Num 100, Num 30, Num 80, Num 40]),
              (date 2024 1 16, [Num 110, Text ''n/a'', Num 82, NA]),
              (date 2024 2 1, [Num 120, Num 34, Num 90, Text ''n/a''])]\<rparr>"

text \<open>
  An attribute file with a fuel name that occurs twice:
  \<^verbatim>\<open>fuel,capacity,efficiency / coal,10,0.4 / gas,20,0.5 / coal,15,0.45\<close>.
\<close>

definition capacities :: plain_table where
  "capacities =
     \<lparr>pcolumns = [''fuel'', ''capacity'', ''efficiency''],
      prows = [[Text ''coal'', Num 10, Num (2/5)],
               [Text ''gas'', Num 20, Num (1/2)],
               [Text ''coal'', Num 15, Num (9/20)]]\<rparr>"

text \<open>
  What \<^verbatim>\<open>load_prices\<close> returns for \<open>fuel_prices\<close> with no bounds; the same file
  with no number in any cell; and a price file whose extra column holds text.
\<close>

definition fuel_prices_out :: frame where
  "fuel_prices_out =
     \<lparr>frame_columns = [''coal'', ''gas'', ''oil'', ''lignite''],
      frame_rows = [(date 2024 1 31, [Some 105, Some 30, Some 81, Some 40]),
                    (date 2024 2 29, [Some 120, Some 34, Some 90, None])]\<rparr>"

definition fuel_prices_text :: table where
  "fuel_prices_text =
     \<lparr>date_col = ''month'', columns = [''Coal'', '' gas '', ''OIL'', ''Lignite''],
      rows = [(date 2024 1 1, [Text ''a'', Text ''b'', Text ''c'', Text ''d'']),
              (date 2024 1 16, [NA, NA, NA, NA]),
              (date 2024 2 1, [])]\<rparr>"

definition prices_with_unit :: table where
  "prices_with_unit =
     \<lparr>date_col = ''month'', columns = [''coal'', ''gas'', ''oil'', ''unit''],
      rows = [(date 2024 1 31, [Num 1, Num 2, Num 3, Text ''EUR/MWh''])]\<rparr>"

text \<open>A demand file with 22 zone columns.\<close>

definition wide_demand :: table where
  "wide_demand =
     \<lparr>date_col = ''utc_timestamp'',
      columns = [''Z01'', ''Z02'', ''Z03'', ''Z04'', ''Z05'', ''Z06'', ''Z07'', ''Z08'', ''Z09'', ''Z10'', ''Z11'', ''Z12'', ''Z13'', ''Z14'', ''Z15'', ''Z16'', ''Z17'', ''Z18'', ''Z19'', ''Z20'', ''Z21'', ''Z22''],
      rows = [(date 2024 1 1, [])]\<rparr>"

text \<open>
  Demand files that are not in ascending time order: one with the February row
  first, one in descending order, and one whose row of 23:30 stands before the
  row of 23:00.
\<close>

definition unsorted_demand :: table where
  "unsorted_demand =
     \<lparr>date_col = ''utc_timestamp'', columns = [''DK_2''],
      rows = [(date 2024 2 5, [Num 30]), (date 2024 1 10, [Num 10]),
              (date 2024 3 1, [Num 8])]\<rparr>"

definition descending_demand :: table where
  "descending_demand =
     \<lparr>date_col = ''utc_timestamp'', columns = [''DK_2''],
      rows = [(date 2024 3 1, [Num 8]), (date 2024 2 5, [Num 30]),
              (date 2024 1 10, [Num 10])]\<rparr>"

definition late_row_demand :: table where
  "late_row_demand =
     \<lparr>date_col = ''utc_timestamp'', columns = [''DK_2''],
      rows = [(date_hour 2024 1 31 22, [Text ''n/a'']),
              (\<lparr>year = 2024, month = 1, day = 31,
                nanos = 23 * ns_per_hour + 1800000000000\<rparr>, [Num 5]),
              (date_hour 2024 1 31 23, [Text ''n/a''])]\<rparr>"


section \<open>Properties\<close>

subsection \<open>Evaluation\<close>

lemmas cal_defs = add_Hour_def add_MonthEnd_def shift_month_end_def roll_convention_def
  days_in_month_def is_leap_def date_def date_hour_def ns_per_day_def ns_per_hour_def
  next_day_def

lemmas str_defs = py_strip_def py_lower_def lower_char_def upper_chars_def lower_chars_def
  is_space_def

lemmas window_defs = resolve_start_def resolve_end_def ts_gt_def ts_less_def ts_le_def
  ts_min_def ts_max_def window_rows_def loc_slice_def get_slice_bound_def
  monotonic_increasing_def monotonic_decreasing_def

lemmas resample_defs = resample_def resample_frame_def bucket_range_def in_bucket_def
  ME_def month_index_def month_end_label_def nan_sum_def nan_mean_def value_at_def

lemmas demand_defs = load_demand_def col_map_def selected_series_def index_of_def
  cell_at_def scale_to_frame_def available_sample_def

lemmas prices_defs = load_prices_def normalize_columns_def required_def
  missing_required_def coerce_all_def cell_at_def

lemma example_files_ascending:
  "monotonic_increasing (map fst (rows demand_with_gap))"
  "monotonic_increasing (map fst (rows fuel_prices))"
  by (simp_all add: monotonic_increasing_def demand_with_gap_def fuel_prices_def
      ts_le_def ts_less_def date_def)

subsection \<open>The slice of an ascending index\<close>

text \<open>
  Timestamps are totally ordered, so on an ascending index the positions of the
  bounds enclose the rows whose timestamp lies between the bounds.
\<close>

lemma ts_less_irrefl: "\<not> ts_less a a"
  by (simp add: ts_less_def)

lemma ts_less_trans: "ts_less a b \<Longrightarrow> ts_less b c \<Longrightarrow> ts_less a c"
  by (auto simp: ts_less_def)

lemma ts_total: "ts_less a b \<or> a = b \<or> ts_less b a"
  by (cases a; cases b) (auto simp: ts_less_def)

lemma ts_le_trans: "ts_le a b \<Longrightarrow> ts_le b c \<Longrightarrow> ts_le a c"
  using ts_less_trans by (auto simp: ts_le_def)

lemma not_ts_less: "\<not> ts_less a b \<longleftrightarrow> ts_le b a"
  using ts_total [of a b] ts_less_trans [of a b a] ts_less_irrefl [of a]
  by (auto simp: ts_le_def)

lemma ts_less_le_trans: "ts_less a b \<Longrightarrow> ts_le b c \<Longrightarrow> ts_less a c"
  using ts_less_trans by (auto simp: ts_le_def)

lemma ts_le_less_trans: "ts_le a b \<Longrightarrow> ts_less b c \<Longrightarrow> ts_less a c"
  using ts_less_trans by (auto simp: ts_le_def)

text \<open>On a sorted list, a predicate that is closed downwards holds on a prefix.\<close>

lemma sorted_filter_take:
  assumes "sorted_wrt (\<lambda>x y. le (f x) (f y)) xs"
    and "\<forall>x y. le (f x) (f y) \<longrightarrow> P y \<longrightarrow> P x"
  shows "filter P xs = take (length (filter P xs)) xs \<and>
         filter (\<lambda>x. \<not> P x) xs = drop (length (filter P xs)) xs"
  using assms(1)
proof (induction xs)
  case Nil
  show ?case by simp
next
  case (Cons x xs)
  then have IH: "filter P xs = take (length (filter P xs)) xs"
    "filter (\<lambda>x. \<not> P x) xs = drop (length (filter P xs)) xs"
    by simp_all
  show ?case
  proof (cases "P x")
    case True
    with IH show ?thesis by simp
  next
    case False
    from Cons.prems have "\<forall>y\<in>set xs. le (f x) (f y)" by simp
    with False assms(2) have "\<forall>y\<in>set xs. \<not> P y" by blast
    then have "filter P xs = []" "filter (\<lambda>x. \<not> P x) xs = xs"
      by (simp_all add: filter_empty_conv filter_id_conv)
    with False show ?thesis by simp
  qed
qed

lemma length_filter_fst:
  "length (filter P (map fst rs)) = length (filter (\<lambda>row. P (fst row)) rs)"
  by (induction rs) simp_all

lemma ascending_slice:
  assumes "sorted_wrt (\<lambda>x y. ts_le (fst x) (fst y)) rs"
  shows "take (length (filter (\<lambda>row. ts_le (fst row) hi) rs) -
              length (filter (\<lambda>row. ts_less (fst row) lo) rs))
           (drop (length (filter (\<lambda>row. ts_less (fst row) lo) rs)) rs) =
         filter (\<lambda>row. ts_le lo (fst row) \<and> ts_le (fst row) hi) rs"
proof -
  let ?P1 = "\<lambda>row. ts_less (fst row) lo"
  let ?P2 = "\<lambda>row. ts_le (fst row) hi"
  let ?i = "length (filter ?P1 rs)"
  let ?j = "length (filter ?P2 rs)"
  let ?ys = "filter (\<lambda>row. \<not> ?P1 row) rs"
  have down1: "\<forall>x y. ts_le (fst x) (fst y) \<longrightarrow> ?P1 y \<longrightarrow> ?P1 x"
    using ts_le_less_trans by blast
  have down2: "\<forall>x y. ts_le (fst x) (fst y) \<longrightarrow> ?P2 y \<longrightarrow> ?P2 x"
    using ts_le_trans by blast
  from sorted_filter_take [of ts_le fst rs ?P1, OF assms down1]
  have ys: "?ys = drop ?i rs" by simp
  have "sorted_wrt (\<lambda>x y. ts_le (fst x) (fst y)) ?ys"
    using assms by (rule sorted_wrt_filter)
  from sorted_filter_take [of ts_le fst ?ys ?P2, OF this down2]
  have take: "filter ?P2 ?ys = take (length (filter ?P2 ?ys)) ?ys" by simp
  have window: "filter ?P2 ?ys = filter (\<lambda>row. ts_le lo (fst row) \<and> ts_le (fst row) hi) rs"
    by (simp add: not_ts_less)
  have len: "length (filter ?P2 ?ys) = ?j - ?i"
  proof (cases "ts_less hi lo")
    case True
    then have imp: "\<And>row. ?P2 row \<Longrightarrow> ?P1 row"
      using ts_le_less_trans by blast
    then have "filter ?P2 ?ys = []"
      by (auto simp: filter_empty_conv)
    moreover have "filter ?P2 rs = filter ?P2 (filter ?P1 rs)"
      using imp by (auto intro: filter_cong)
    then have "?j \<le> ?i"
      by (metis length_filter_le)
    ultimately show ?thesis by simp
  next
    case False
    then have "ts_le lo hi" by (simp add: not_ts_less)
    then have imp: "\<And>row. ?P1 row \<Longrightarrow> ?P2 row"
      using ts_less_le_trans by (auto simp: ts_le_def)
    have "length (filter ?P1 (filter ?P2 rs)) +
        length (filter (\<lambda>row. \<not> ?P1 row) (filter ?P2 rs)) = ?j"
      by (rule sum_length_filter_compl)
    moreover have "filter ?P1 (filter ?P2 rs) = filter ?P1 rs"
      using imp by (auto intro: filter_cong)
    moreover have "filter (\<lambda>row. \<not> ?P1 row) (filter ?P2 rs) = filter ?P2 ?ys"
      by (auto intro: filter_cong)
    ultimately show ?thesis by simp
  qed
  have "take (?j - ?i) (drop ?i rs) = take (length (filter ?P2 ?ys)) ?ys"
    by (simp only: len ys [symmetric])
  also have "\<dots> = filter ?P2 ?ys"
    by (rule take [symmetric])
  also have "\<dots> = filter (\<lambda>row. ts_le lo (fst row) \<and> ts_le (fst row) hi) rs"
    by (rule window)
  finally show ?thesis .
qed

lemma loc_slice_ascending:
  assumes "monotonic_increasing (map fst rs)"
  shows "loc_slice a b rs = Inr (window_rows a b rs)"
proof (cases a)
  case None
  then show ?thesis by (simp add: loc_slice_def window_rows_def)
next
  case (Some lo)
  show ?thesis
  proof (cases b)
    case None
    with Some show ?thesis by (simp add: loc_slice_def window_rows_def)
  next
    case (Some hi)
    from assms have "sorted_wrt (\<lambda>x y. ts_le (fst x) (fst y)) rs"
      by (simp add: monotonic_increasing_def sorted_wrt_map)
    from ascending_slice [OF this, of hi lo] assms \<open>a = Some lo\<close> Some show ?thesis
      by (simp add: loc_slice_def window_rows_def get_slice_bound_def comp_def)
  qed
qed

lemma fst_selected_series: "map fst (selected_series col df) = map fst (rows df)"
  by (simp add: selected_series_def)

lemma fst_coerce_all: "map fst (coerce_all n rs) = map fst rs"
  by (simp add: coerce_all_def)

text \<open>The loaders on a file in ascending time order.\<close>

lemma load_prices_ascending:
  assumes "monotonic_increasing (map fst (rows df))"
  shows "load_prices df start end' resample_method =
     (if 1 + length (columns df) < 2 then Inl (ValueError NeedsFuelColumns)
      else
        let cols = normalize_columns (columns df);
            missing = missing_required cols
        in
          if missing \<noteq> [] then Inl (ValueError (MissingRequiredColumns missing cols))
          else
            let numeric = coerce_all (length cols) (rows df);
                start_ts = resolve_start start (map fst numeric);
                end_ts = resolve_end end' (map fst numeric)
            in
              if ts_gt start_ts end_ts then Inl (ValueError StartAfterEnd)
              else
                let window = window_rows start_ts end_ts numeric
                in
                  if window = [] then Inl (ValueError NoData)
                  else Inr \<lparr>frame_columns = cols,
                            frame_rows = resample_frame resample_method nan_mean (length cols) window\<rparr>)"
  using assms
  by (simp add: load_prices_def Let_def loc_slice_ascending fst_coerce_all)

lemma load_demand_ascending:
  assumes "monotonic_increasing (map fst (rows df))"
  shows "load_demand df start end' resample_method zone supply_factor =
     (if 1 + length (columns df) < 2 then Inl (ValueError NeedsZoneColumn)
      else
        case col_map (columns df) (py_strip (py_lower zone)) of
          None \<Rightarrow> Inl (ValueError (ZoneNotFound zone (available_sample (columns df))))
        | Some selected_col \<Rightarrow>
            let series = selected_series selected_col df;
                start_ts = resolve_start start (map fst series);
                end_ts = resolve_end end' (map fst series)
            in
              if ts_gt start_ts end_ts then Inl (ValueError StartAfterEnd)
              else
                let window = window_rows start_ts end_ts series
                in
                  if window = [] then Inl (ValueError NoData)
                  else Inr (scale_to_frame selected_col supply_factor
                              (resample resample_method nan_sum window)))"
  using assms
  by (simp add: load_demand_def Let_def loc_slice_ascending fst_selected_series
      split: option.splits)

subsection \<open>The month-end extension of an explicit end\<close>

text \<open>
  For an explicit end at midnight, the bound is 23:00 of the last day of the
  month of the end when the end is an earlier day of that month, and 23:00 of the
  last day of the following month when the end is the last day of its month.
\<close>

lemma shift_month_end_0:
  assumes "1 \<le> month e" and "month e \<le> 12"
  shows "shift_month_end e 0 = e\<lparr>day := days_in_month (year e) (month e)\<rparr>"
proof -
  have d: "(12 * year e + (int (month e) - 1) + 0) div 12 = year e"
    using assms by auto
  have m: "nat ((12 * year e + (int (month e) - 1) + 0) mod 12) + 1 = month e"
    using assms by auto
  show ?thesis
    unfolding shift_month_end_def Let_def d m by simp
qed

lemma shift_month_end_1:
  assumes "1 \<le> month e" and "month e < 12"
  shows "shift_month_end e 1 =
    e\<lparr>month := month e + 1, day := days_in_month (year e) (month e + 1)\<rparr>"
proof -
  have d: "(12 * year e + (int (month e) - 1) + 1) div 12 = year e"
    using assms by auto
  have m: "nat ((12 * year e + (int (month e) - 1) + 1) mod 12) + 1 = month e + 1"
    using assms by auto
  show ?thesis
    unfolding shift_month_end_def Let_def d m by simp
qed

lemma shift_month_end_december:
  assumes "month e = 12"
  shows "shift_month_end e 1 = e\<lparr>year := year e + 1, month := 1, day := 31\<rparr>"
proof -
  have d: "(12 * year e + (int (month e) - 1) + 1) div 12 = year e + 1"
    using assms by auto
  have m: "nat ((12 * year e + (int (month e) - 1) + 1) mod 12) + 1 = 1"
    using assms by auto
  show ?thesis
    unfolding shift_month_end_def Let_def d m by (simp add: days_in_month_def)
qed

lemma add_Hour_23_midnight:
  "nanos t = 0 \<Longrightarrow> add_Hour 23 t = t\<lparr>nanos := 23 * ns_per_hour\<rparr>"
  by (simp add: add_Hour_def ns_per_day_def ns_per_hour_def)

lemma resolve_end_before_last_day:
  assumes "valid_ts e" and "day e < days_in_month (year e) (month e)" and "nanos e = 0"
  shows "resolve_end (Some e) idx =
    Some (date_hour (year e) (month e) (days_in_month (year e) (month e)) 23)"
proof -
  from assms(1) have m: "1 \<le> month e" "month e \<le> 12"
    by (simp_all add: valid_ts_def)
  from assms(2) have "add_MonthEnd 1 e = shift_month_end e 0"
    by (simp add: add_MonthEnd_def roll_convention_def)
  with shift_month_end_0 [OF m] assms(3) show ?thesis
    by (simp add: resolve_end_def add_Hour_23_midnight date_hour_def)
qed

lemma resolve_end_on_last_day:
  assumes "valid_ts e" and "day e = days_in_month (year e) (month e)" and "nanos e = 0"
  shows "resolve_end (Some e) idx =
    Some (if month e = 12 then date_hour (year e + 1) 1 31 23
          else date_hour (year e) (month e + 1) (days_in_month (year e) (month e + 1)) 23)"
proof -
  from assms(1) have m: "1 \<le> month e" "month e \<le> 12"
    by (simp_all add: valid_ts_def)
  from assms(2) have roll: "add_MonthEnd 1 e = shift_month_end e 1"
    by (simp add: add_MonthEnd_def roll_convention_def)
  show ?thesis
  proof (cases "month e = 12")
    case True
    with roll shift_month_end_december [OF True] assms(3) show ?thesis
      by (simp add: resolve_end_def add_Hour_23_midnight date_hour_def)
  next
    case False
    with m have "month e < 12" by simp
    from roll shift_month_end_1 [OF m(1) this] assms(3) False show ?thesis
      by (simp add: resolve_end_def add_Hour_23_midnight date_hour_def)
  qed
qed

text \<open>
  Claim C1. With an explicit \<^verbatim>\<open>end\<close>, the upper bound of the window is meant to be
  the last day of the month of \<^verbatim>\<open>end\<close> at 23:00, so that \<^verbatim>\<open>end="2024-01-31"\<close> on
  an hourly file takes the rows through 2024-01-31T23:00 and none of a later
  month. The source computes \<^verbatim>\<open>pd.to_datetime(end) + MonthEnd(1) + Hour(23)\<close>, and
  \<^verbatim>\<open>MonthEnd(1)\<close> moves a date that already is the last day of its month to the
  last day of the next month. For \<^verbatim>\<open>end="2024-01-31"\<close> the bound is
  2024-02-29T23:00: the window takes every hour of February (here 2024-02-01T00:00
  and 2024-02-29T23:00, reported in a February bucket), and stops before March.
\<close>

theorem C1_end_on_month_end_takes_next_month:
  "resolve_end (Some (date 2024 1 31)) idx = Some (date_hour 2024 2 29 23) \<and>
   load_demand hourly_demand None (Some (date 2024 1 31)) ME ''DK_2'' 1 =
     Inr \<lparr>frame_columns = [''DK_2''],
          frame_rows = [(date 2024 1 31, [Some 30]), (date 2024 2 29, [Some 100])]\<rparr>"
  by (simp add: hourly_demand_def demand_defs str_defs window_defs cal_defs resample_defs)

subsection \<open>What \<^verbatim>\<open>load_demand\<close> returns\<close>

lemma present_to_numeric: "present (map to_numeric cs) = numbers cs"
  by (induction cs rule: numbers.induct) simp_all

lemma window_rows_Some:
  "window_rows (Some lo) (Some hi) rs = filter (\<lambda>row. in_window lo hi (fst row)) rs"
  by (simp add: window_rows_def in_window_def)

lemma window_rows_nonempty:
  "window_rows a b rs \<noteq> [] \<Longrightarrow> \<exists>lo hi. a = Some lo \<and> b = Some hi"
  by (cases a; cases b) (simp_all add: window_rows_def)

lemma fst_filter_map:
  "map fst (filter (\<lambda>row. P (fst row)) (map (\<lambda>row. (fst row, f row)) rs)) =
   filter P (map fst rs)"
  by (induction rs) simp_all

lemma window_selected_series:
  "map fst (window_rows (Some lo) (Some hi) (selected_series col df)) = window_index df lo hi"
  unfolding window_rows_Some selected_series_def window_index_def
  by (rule fst_filter_map)

lemma series_bucket_values:
  "present (map snd (filter (\<lambda>row. P (fst row))
     (map (\<lambda>row. (fst row, to_numeric (cell_at (snd row) i))) rs))) =
   numbers (map (\<lambda>row. cell_at (snd row) i) (filter (\<lambda>row. P (fst row)) rs))"
proof (induction rs)
  case Nil
  show ?case by simp
next
  case (Cons row rs)
  then show ?case by (cases "cell_at (snd row) i") simp_all
qed

lemma bucket_sum_selected:
  "nan_sum (map snd (in_bucket r k (window_rows (Some lo) (Some hi) (selected_series col df)))) =
   Some (sum_list (raw_values df (index_of col (columns df)) lo hi r k))"
  unfolding in_bucket_def window_rows_Some selected_series_def filter_filter nan_sum_def
    raw_values_def
  using series_bucket_values
    [of "\<lambda>t. in_window lo hi t \<and> bucket r t = k" "index_of col (columns df)" "rows df"]
  by simp

lemma resample_sum_selected:
  "resample r nan_sum (window_rows (Some lo) (Some hi) (selected_series col df)) =
   map (\<lambda>k. (label r k, Some (sum_list (raw_values df (index_of col (columns df)) lo hi r k))))
     (bucket_range r (window_index df lo hi))"
  unfolding resample_def window_selected_series bucket_sum_selected ..

lemma load_demand_Inr:
  assumes "load_demand df start end' r zone supply_factor = Inr out"
    and "monotonic_increasing (map fst (rows df))"
  shows "\<exists>col lo hi.
     col_map (columns df) (py_strip (py_lower zone)) = Some col \<and>
     resolve_start start (map fst (rows df)) = Some lo \<and>
     resolve_end end' (map fst (rows df)) = Some hi \<and>
     out = scale_to_frame col supply_factor
       (resample r nan_sum (window_rows (Some lo) (Some hi) (selected_series col df)))"
proof -
  from assms(1) obtain col where
    col: "col_map (columns df) (py_strip (py_lower zone)) = Some col"
    by (auto simp: load_demand_ascending [OF assms(2)] split: if_splits option.splits)
  let ?a = "resolve_start start (map fst (rows df))"
  let ?b = "resolve_end end' (map fst (rows df))"
  let ?w = "window_rows ?a ?b (selected_series col df)"
  from assms(1) col have w: "?w \<noteq> []"
    and out: "out = scale_to_frame col supply_factor (resample r nan_sum ?w)"
    by (auto simp: load_demand_ascending [OF assms(2)] fst_selected_series Let_def
        split: if_splits)
  from window_rows_nonempty [OF w] obtain lo hi where "?a = Some lo" "?b = Some hi"
    by blast
  with col out show ?thesis by auto
qed

lemma numbers_all_missing:
  "\<forall>c\<in>set cs. to_numeric c = None \<Longrightarrow> numbers cs = []"
  by (induction cs rule: numbers.induct) simp_all

lemma demand_with_gap_loads:
  "load_demand demand_with_gap None None ME ''dk_2'' (1/2) = Inr demand_with_gap_out"
  by (simp add: demand_with_gap_def demand_with_gap_out_def demand_defs str_defs window_defs
      cal_defs resample_defs)

text \<open>
  Claim C2. For a file in ascending time order, whenever \<^verbatim>\<open>load_demand\<close> returns,
  the returned frame has the selected column and one row for every bucket from
  the one of the earliest to the one of the latest row of the window, and the
  value of a bucket is \<open>supply_factor\<close> times the sum of the numbers that the
  selected zone column holds in the rows of the window falling into the bucket,
  for every bucket whose sum lies in the 64-bit integer range; cells that are not
  numbers are left out of the sum.
\<close>

theorem C2_demand_value_is_scaled_sum:
  assumes "load_demand df start end' r zone supply_factor = Inr out"
    and "monotonic_increasing (map fst (rows df))"
  shows "\<exists>col lo hi.
     col_map (columns df) (py_strip (py_lower zone)) = Some col \<and>
     resolve_start start (map fst (rows df)) = Some lo \<and>
     resolve_end end' (map fst (rows df)) = Some hi \<and>
     frame_columns out = [col] \<and>
     list_all2
       (\<lambda>k row. fst row = label r k \<and>
          (in_int64 (sum_list (raw_values df (index_of col (columns df)) lo hi r k)) \<longrightarrow>
           snd row =
             [Some (supply_factor *
                sum_list (raw_values df (index_of col (columns df)) lo hi r k))]))
       (bucket_range r (window_index df lo hi)) (frame_rows out)"
proof -
  from load_demand_Inr [OF assms(1,2)] obtain col lo hi where
    h: "col_map (columns df) (py_strip (py_lower zone)) = Some col"
       "resolve_start start (map fst (rows df)) = Some lo"
       "resolve_end end' (map fst (rows df)) = Some hi"
       "out = scale_to_frame col supply_factor
          (resample r nan_sum (window_rows (Some lo) (Some hi) (selected_series col df)))"
    by blast
  have rows: "frame_rows out =
       map (\<lambda>k. (label r k,
              [Some (supply_factor * sum_list (raw_values df (index_of col (columns df)) lo hi r k))]))
         (bucket_range r (window_index df lo hi))"
    unfolding h(4) resample_sum_selected
    by (simp add: scale_to_frame_def comp_def mult.commute)
  have cols: "frame_columns out = [col]"
    unfolding h(4) by (simp add: scale_to_frame_def)
  have "list_all2
       (\<lambda>k row. fst row = label r k \<and>
          (in_int64 (sum_list (raw_values df (index_of col (columns df)) lo hi r k)) \<longrightarrow>
           snd row =
             [Some (supply_factor *
                sum_list (raw_values df (index_of col (columns df)) lo hi r k))]))
       (bucket_range r (window_index df lo hi)) (frame_rows out)"
    unfolding rows by (simp add: list.rel_map list_all2_same)
  with h(1-3) cols show ?thesis by blast
qed

theorem C2_witness:
  "load_demand demand_with_gap None None ME ''dk_2'' (1/2) = Inr demand_with_gap_out \<and>
   monotonic_increasing (map fst (rows demand_with_gap)) \<and>
   (\<exists>col lo hi.
     col_map (columns demand_with_gap) (py_strip (py_lower ''dk_2'')) = Some col \<and>
     resolve_start None (map fst (rows demand_with_gap)) = Some lo \<and>
     resolve_end None (map fst (rows demand_with_gap)) = Some hi \<and>
     frame_columns demand_with_gap_out = [col] \<and>
     list_all2
       (\<lambda>k row. fst row = label ME k \<and>
          (in_int64 (sum_list (raw_values demand_with_gap
               (index_of col (columns demand_with_gap)) lo hi ME k)) \<longrightarrow>
           snd row =
             [Some (1/2 *
                sum_list (raw_values demand_with_gap
                  (index_of col (columns demand_with_gap)) lo hi ME k))]))
       (bucket_range ME (window_index demand_with_gap lo hi))
       (frame_rows demand_with_gap_out)) \<and>
   map (\<lambda>k. sum_list (raw_values demand_with_gap 1 (date 2024 1 10) (date 2024 3 1) ME k))
     [24288, 24289, 24290] = [40, 0, 8] \<and>
   in_int64 40 \<and> in_int64 0 \<and> in_int64 8 \<and>
   frame_rows demand_with_gap_out =
     [(label ME 24288, [Some (1/2 * 40)]), (label ME 24289, [Some (1/2 * 0)]),
      (label ME 24290, [Some (1/2 * 8)])]"
proof -
  have sums: "map (\<lambda>k. sum_list (raw_values demand_with_gap 1 (date 2024 1 10) (date 2024 3 1) ME k))
     [24288, 24289, 24290] = [40, 0, 8]"
    by (simp add: raw_values_def demand_with_gap_def in_window_def window_defs cal_defs
        resample_defs cell_at_def)
  have range: "in_int64 40 \<and> in_int64 0 \<and> in_int64 8"
    by (simp add: in_int64_def)
  have out: "frame_rows demand_with_gap_out =
     [(label ME 24288, [Some (1/2 * 40)]), (label ME 24289, [Some (1/2 * 0)]),
      (label ME 24290, [Some (1/2 * 8)])]"
    by (simp add: demand_with_gap_out_def resample_defs cal_defs)
  from demand_with_gap_loads example_files_ascending(1)
    C2_demand_value_is_scaled_sum [OF demand_with_gap_loads example_files_ascending(1)]
    sums range out
  show ?thesis by blast
qed

text \<open>
  Claim C10. For a file in ascending time order, a bucket of the returned range
  in which every cell of the selected zone column failed the numeric coercion (or
  into which no row of the window falls) is reported with the value 0, not as a
  missing value.
\<close>

theorem C10_all_missing_bucket_is_zero:
  assumes "load_demand df start end' r zone supply_factor = Inr out"
    and "monotonic_increasing (map fst (rows df))"
    and "col_map (columns df) (py_strip (py_lower zone)) = Some col"
    and "resolve_start start (map fst (rows df)) = Some lo"
    and "resolve_end end' (map fst (rows df)) = Some hi"
    and "k \<in> set (bucket_range r (window_index df lo hi))"
    and "\<forall>row\<in>set (rows df). in_window lo hi (fst row) \<and> bucket r (fst row) = k \<longrightarrow>
           to_numeric (cell_at (snd row) (index_of col (columns df))) = None"
  shows "(label r k, [Some 0]) \<in> set (frame_rows out)"
proof -
  from load_demand_Inr [OF assms(1,2)] assms(3-5)
  have out: "out = scale_to_frame col supply_factor
       (resample r nan_sum (window_rows (Some lo) (Some hi) (selected_series col df)))"
    by auto
  from assms(7) have "raw_values df (index_of col (columns df)) lo hi r k = []"
    unfolding raw_values_def by (intro numbers_all_missing) auto
  then have "(label r k, Some 0) \<in>
      set (resample r nan_sum (window_rows (Some lo) (Some hi) (selected_series col df)))"
    unfolding resample_sum_selected using assms(6) by force
  then show ?thesis
    unfolding out scale_to_frame_def by force
qed

theorem C10_witness:
  "load_demand demand_with_gap None None ME ''dk_2'' (1/2) = Inr demand_with_gap_out \<and>
   monotonic_increasing (map fst (rows demand_with_gap)) \<and>
   (label ME 24289, [Some 0]) \<in> set (frame_rows demand_with_gap_out) \<and>
   label ME 24289 = date 2024 2 29"
proof -
  have col: "col_map (columns demand_with_gap) (py_strip (py_lower ''dk_2'')) = Some ''DK_2''"
    by (simp add: demand_with_gap_def col_map_def str_defs)
  have lo: "resolve_start None (map fst (rows demand_with_gap)) = Some (date 2024 1 10)"
    by (simp add: demand_with_gap_def window_defs cal_defs)
  have hi: "resolve_end None (map fst (rows demand_with_gap)) = Some (date 2024 3 1)"
    by (simp add: demand_with_gap_def window_defs cal_defs)
  have k: "24289 \<in> set (bucket_range ME
      (window_index demand_with_gap (date 2024 1 10) (date 2024 3 1)))"
    by (simp add: demand_with_gap_def window_index_def in_window_def window_defs cal_defs
        resample_defs)
  have missing: "\<forall>row\<in>set (rows demand_with_gap).
      in_window (date 2024 1 10) (date 2024 3 1) (fst row) \<and> bucket ME (fst row) = 24289 \<longrightarrow>
      to_numeric (cell_at (snd row) (index_of ''DK_2'' (columns demand_with_gap))) = None"
    by (simp add: demand_with_gap_def in_window_def window_defs cal_defs resample_defs
        index_of_def cell_at_def)
  have "label ME 24289 = date 2024 2 29"
    by (simp add: resample_defs cal_defs)
  with demand_with_gap_loads example_files_ascending(1)
    C10_all_missing_bucket_is_zero
      [OF demand_with_gap_loads example_files_ascending(1) col lo hi k missing]
  show ?thesis by simp
qed

subsection \<open>The failures of the time-series loaders\<close>

lemma window_rows_map:
  "window_rows a b (map (\<lambda>row. (fst row, f row)) rs) =
   map (\<lambda>row. (fst row, f row)) (window_rows a b rs)"
  by (cases a; cases b) (simp_all add: window_rows_def filter_map comp_def)

lemma window_rows_coerce_all:
  "window_rows a b (coerce_all n rs) = coerce_all n (window_rows a b rs)"
  unfolding coerce_all_def by (rule window_rows_map)

lemma window_rows_selected_series:
  "window_rows a b (selected_series col df) =
   map (\<lambda>row. (fst row, to_numeric (cell_at (snd row) (index_of col (columns df)))))
     (window_rows a b (rows df))"
  unfolding selected_series_def by (rule window_rows_map)

lemma window_rows_coerce_all_empty:
  "window_rows a b (coerce_all n rs) = [] \<longleftrightarrow> window_rows a b rs = []"
  unfolding coerce_all_def window_rows_map by simp

lemma window_rows_selected_series_empty:
  "window_rows a b (selected_series col df) = [] \<longleftrightarrow> window_rows a b (rows df) = []"
  unfolding selected_series_def window_rows_map by simp

lemma window_rows_empty_window:
  "(window_rows a b rs = []) = empty_window a b (map fst rs)"
  by (cases a; cases b)
    (simp_all add: window_rows_def empty_window_def in_window_def filter_empty_conv)

lemma col_map_Nil: "col_map [] = Map.empty"
  by (simp add: col_map_def)

lemma fuel_prices_columns:
  "columns fuel_prices \<noteq> []"
  "missing_required (normalize_columns (columns fuel_prices)) = []"
  "col_map (columns fuel_prices) (py_strip (py_lower ''oil'')) \<noteq> None"
  by (simp_all add: fuel_prices_def prices_defs col_map_def str_defs)

text \<open>
  Claim C7. When the normalised column names of a price file lack one of coal, gas
  and oil, \<^verbatim>\<open>load_prices\<close> fails and returns nothing: with the error for missing
  required columns, which names the missing column, or, when the file has no
  column besides the date, with the error for too few columns. Both are
  \<^verbatim>\<open>ValueError\<close> in the source, and are the failures the specification calls
  FormatError. A file without an oil column fails this way.
\<close>

theorem C7_missing_required_column_fails:
  assumes "c \<in> set required"
    and "c \<notin> set (normalize_columns (columns df))"
  shows "load_prices df start end' r =
      Inl (ValueError
        (if columns df = [] then NeedsFuelColumns
         else MissingRequiredColumns (missing_required (normalize_columns (columns df)))
                (normalize_columns (columns df)))) \<and>
    c \<in> set (missing_required (normalize_columns (columns df)))"
proof -
  from assms have c: "c \<in> set (missing_required (normalize_columns (columns df)))"
    by (simp add: missing_required_def)
  then have "missing_required (normalize_columns (columns df)) \<noteq> []"
    by auto
  then have "load_prices df start end' r =
      Inl (ValueError
        (if columns df = [] then NeedsFuelColumns
         else MissingRequiredColumns (missing_required (normalize_columns (columns df)))
                (normalize_columns (columns df))))"
    by (cases "columns df") (simp_all add: load_prices_def Let_def)
  with c show ?thesis by simp
qed

theorem C7_witness:
  "''oil'' \<in> set required \<and>
   ''oil'' \<notin> set (normalize_columns (columns prices_no_oil)) \<and>
   load_prices prices_no_oil None None ME =
     Inl (ValueError (MissingRequiredColumns [''oil''] [''coal'', ''gas'']))"
proof -
  have a: "''oil'' \<in> set required"
    by (simp add: required_def)
  have b: "''oil'' \<notin> set (normalize_columns (columns prices_no_oil))"
    by (simp add: prices_no_oil_def normalize_columns_def str_defs)
  have c: "missing_required (normalize_columns (columns prices_no_oil)) = [''oil'']"
    "normalize_columns (columns prices_no_oil) = [''coal'', ''gas'']"
    "columns prices_no_oil \<noteq> []"
    by (simp_all add: prices_no_oil_def normalize_columns_def missing_required_def
        required_def str_defs)
  from a b C7_missing_required_column_fails [OF a b, of None None ME] show ?thesis
    by (simp add: c missing_required_def required_def)
qed

text \<open>
  Claim C8. When the resolved start is later than the resolved end, neither loader
  returns data, and a call that has passed the checks of the columns fails with
  the error "`start` must be less than or equal to `end`." (a \<^verbatim>\<open>ValueError\<close>,
  the specification's RangeError). The bounds are resolved after the columns are
  checked, so a file that fails those checks fails with their error.
\<close>

theorem C8_start_after_end_fails:
  assumes "resolve_start start (map fst (rows df)) = Some s"
    and "resolve_end end' (map fst (rows df)) = Some e"
    and "ts_less e s"
  shows "isl (load_prices df start end' r) \<and>
    isl (load_demand df start end' r zone supply_factor) \<and>
    (columns df \<noteq> [] \<and> missing_required (normalize_columns (columns df)) = [] \<longrightarrow>
       load_prices df start end' r = Inl (ValueError StartAfterEnd)) \<and>
    (col_map (columns df) (py_strip (py_lower zone)) \<noteq> None \<longrightarrow>
       load_demand df start end' r zone supply_factor = Inl (ValueError StartAfterEnd))"
proof -
  from assms have gt: "ts_gt (resolve_start start (map fst (rows df)))
      (resolve_end end' (map fst (rows df)))"
    by (simp add: ts_gt_def)
  have p: "isl (load_prices df start end' r)"
    using gt by (simp add: load_prices_def Let_def fst_coerce_all)
  have d: "isl (load_demand df start end' r zone supply_factor)"
    using gt by (simp add: load_demand_def Let_def fst_selected_series split: option.splits)
  have p': "load_prices df start end' r = Inl (ValueError StartAfterEnd)"
    if "columns df \<noteq> []" "missing_required (normalize_columns (columns df)) = []"
    using gt that by (cases "columns df") (simp_all add: load_prices_def Let_def fst_coerce_all)
  have d': "load_demand df start end' r zone supply_factor = Inl (ValueError StartAfterEnd)"
    if "col_map (columns df) (py_strip (py_lower zone)) \<noteq> None"
  proof -
    from that have "columns df \<noteq> []" by (auto simp: col_map_Nil)
    with gt that show ?thesis
      by (cases "columns df") (auto simp: load_demand_def Let_def fst_selected_series)
  qed
  from p d p' d' show ?thesis by blast
qed

theorem C8_witness:
  "load_prices fuel_prices (Some (date 2024 3 1)) (Some (date 2024 1 15)) ME =
     Inl (ValueError StartAfterEnd) \<and>
   load_demand fuel_prices (Some (date 2024 3 1)) (Some (date 2024 1 15)) ME ''oil'' 1 =
     Inl (ValueError StartAfterEnd)"
proof -
  have s: "resolve_start (Some (date 2024 3 1)) (map fst (rows fuel_prices)) =
      Some (date 2024 3 1)"
    by (simp add: resolve_start_def)
  have e: "resolve_end (Some (date 2024 1 15)) (map fst (rows fuel_prices)) =
      Some (date_hour 2024 1 31 23)"
    by (simp add: resolve_end_def cal_defs)
  have lt: "ts_less (date_hour 2024 1 31 23) (date 2024 3 1)"
    by (simp add: ts_less_def cal_defs)
  from C8_start_after_end_fails [OF s e lt, of ME "''oil''" 1] fuel_prices_columns
  show ?thesis by simp
qed

text \<open>
  Claim C9. For a file in ascending time order: when the window is well ordered
  and no row of the table lies in it, neither loader returns a result, and a call
  that has passed the checks of the columns fails with the error "No data in the
  selected date range." (a \<^verbatim>\<open>ValueError\<close>, the specification's
  EmptyResultError); a window beyond the data of the file is such a case.
\<close>

theorem C9_empty_window_fails:
  assumes "monotonic_increasing (map fst (rows df))"
    and "\<not> ts_gt (resolve_start start (map fst (rows df)))
                   (resolve_end end' (map fst (rows df)))"
    and "empty_window (resolve_start start (map fst (rows df)))
           (resolve_end end' (map fst (rows df))) (map fst (rows df))"
  shows "isl (load_prices df start end' r) \<and>
    isl (load_demand df start end' r zone supply_factor) \<and>
    (columns df \<noteq> [] \<and> missing_required (normalize_columns (columns df)) = [] \<longrightarrow>
       load_prices df start end' r = Inl (ValueError NoData)) \<and>
    (col_map (columns df) (py_strip (py_lower zone)) \<noteq> None \<longrightarrow>
       load_demand df start end' r zone supply_factor = Inl (ValueError NoData))"
proof -
  from assms(3) have empty: "window_rows (resolve_start start (map fst (rows df)))
      (resolve_end end' (map fst (rows df))) (rows df) = []"
    by (simp add: window_rows_empty_window)
  note window = assms(2) empty
  have p: "isl (load_prices df start end' r)"
    using window
    by (simp add: load_prices_ascending [OF assms(1)] Let_def fst_coerce_all window_rows_coerce_all_empty)
  have d: "isl (load_demand df start end' r zone supply_factor)"
    using window
    by (simp add: load_demand_ascending [OF assms(1)] Let_def fst_selected_series window_rows_selected_series_empty
        split: option.splits)
  have p': "load_prices df start end' r = Inl (ValueError NoData)"
    if "columns df \<noteq> []" "missing_required (normalize_columns (columns df)) = []"
    using window that
    by (cases "columns df")
      (simp_all add: load_prices_ascending [OF assms(1)] Let_def fst_coerce_all window_rows_coerce_all_empty)
  have d': "load_demand df start end' r zone supply_factor = Inl (ValueError NoData)"
    if "col_map (columns df) (py_strip (py_lower zone)) \<noteq> None"
  proof -
    from that have "columns df \<noteq> []" by (auto simp: col_map_Nil)
    with window that show ?thesis
      by (cases "columns df")
        (auto simp: load_demand_ascending [OF assms(1)] Let_def fst_selected_series window_rows_selected_series_empty)
  qed
  from p d p' d' show ?thesis by blast
qed

theorem C9_witness:
  "monotonic_increasing (map fst (rows fuel_prices)) \<and>
   load_prices fuel_prices (Some (date 2030 1 1)) (Some (date 2030 6 15)) ME =
     Inl (ValueError NoData) \<and>
   load_demand fuel_prices (Some (date 2030 1 1)) (Some (date 2030 6 15)) ME ''oil'' 1 =
     Inl (ValueError NoData)"
proof -
  have ok: "\<not> ts_gt (resolve_start (Some (date 2030 1 1)) (map fst (rows fuel_prices)))
      (resolve_end (Some (date 2030 6 15)) (map fst (rows fuel_prices)))"
    by (simp add: window_defs cal_defs)
  have empty: "empty_window (resolve_start (Some (date 2030 1 1)) (map fst (rows fuel_prices)))
      (resolve_end (Some (date 2030 6 15)) (map fst (rows fuel_prices)))
      (map fst (rows fuel_prices))"
    by (simp add: fuel_prices_def empty_window_def in_window_def window_defs cal_defs)
  from C9_empty_window_fails [OF example_files_ascending(2) ok empty, of ME "''oil''" 1]
    fuel_prices_columns example_files_ascending(2)
  show ?thesis by simp
qed

subsection \<open>The attribute maps\<close>

lemmas attr_defs = load_storage_def load_plant_capacity_def load_efficiency_def
  issubset_def column_def index_of_def cell_at_def py_dict_def

lemma py_dict_snoc: "py_dict (ps @ [p]) = AList.update (fst p) (snd p) (py_dict ps)"
  by (simp add: py_dict_def)

lemma keys_py_dict: "map fst (py_dict ps) = rev (remdups (rev (map fst ps)))"
proof (induction ps rule: rev_induct)
  case Nil
  show ?case by (simp add: py_dict_def)
next
  case (snoc p ps)
  then show ?case by (simp add: py_dict_snoc update_keys)
qed

lemma distinct_py_dict: "distinct (map fst (py_dict ps))"
  by (simp add: keys_py_dict)

lemma py_dict_last_wins:
  assumes "i < length ps"
    and "\<forall>j. i < j \<and> j < length ps \<longrightarrow> fst (ps ! j) \<noteq> fst (ps ! i)"
  shows "map_of (py_dict ps) (fst (ps ! i)) = Some (snd (ps ! i))"
  using assms
proof (induction ps rule: rev_induct)
  case Nil
  then show ?case by simp
next
  case (snoc p ps)
  show ?case
  proof (cases "i = length ps")
    case True
    then show ?thesis by (simp add: py_dict_snoc update_conv)
  next
    case False
    with snoc.prems(1) have i: "i < length ps" by simp
    from snoc.prems(2) i have "fst p \<noteq> fst (ps ! i)"
      by (auto simp: nth_append dest: spec [of _ "length ps"])
    moreover have "\<forall>j. i < j \<and> j < length ps \<longrightarrow> fst (ps ! j) \<noteq> fst (ps ! i)"
    proof (intro allI impI)
      fix j assume j: "i < j \<and> j < length ps"
      with snoc.prems(2) have "fst ((ps @ [p]) ! j) \<noteq> fst ((ps @ [p]) ! i)"
        by simp
      with j i show "fst (ps ! j) \<noteq> fst (ps ! i)"
        by (simp add: nth_append)
    qed
    ultimately show ?thesis
      using snoc.IH i by (simp add: py_dict_snoc update_conv nth_append)
  qed
qed

lemma length_column: "length (column df name) = length (prows df)"
  by (simp add: column_def)

lemma dict_of_columns_last_wins:
  assumes "i < length (prows df)"
    and "\<forall>j. i < j \<and> j < length (prows df) \<longrightarrow> column df a ! j \<noteq> column df a ! i"
  shows "map_of (py_dict (zip (column df a) (column df b))) (column df a ! i) =
    Some (column df b ! i)"
  using py_dict_last_wins [of i "zip (column df a) (column df b)"] assms
  by (simp add: length_column)

lemma keys_dict_of_columns:
  "map fst (py_dict (zip (column df a) (column df b))) = rev (remdups (rev (column df a)))"
  by (simp add: keys_py_dict length_column)

text \<open>
  Claim C5. For a file that has the two required columns, each of
  \<^verbatim>\<open>load_storage\<close>, \<^verbatim>\<open>load_plant_capacity\<close> and \<^verbatim>\<open>load_efficiency\<close> returns a
  mapping whose keys are the fuel names in the order of their first row, and
  which, for the last row of a fuel name (no later row has the same name), holds
  the value of that row. The file \<^verbatim>\<open>coal,10 / gas,20 / coal,15\<close> gives
  \<^verbatim>\<open>{coal: 15, gas: 20}\<close>.
\<close>

theorem C5_attribute_map_last_row_wins:
  assumes "i < length (prows df)"
    and "\<forall>j. i < j \<and> j < length (prows df) \<longrightarrow>
           column df ''fuel'' ! j \<noteq> column df ''fuel'' ! i"
  shows "(issubset [''fuel'', ''capacity''] (pcolumns df) \<longrightarrow>
      (\<exists>d. load_storage df = Inr d \<and> load_plant_capacity df = Inr d \<and>
         map fst d = rev (remdups (rev (column df ''fuel''))) \<and>
         map_of d (column df ''fuel'' ! i) = Some (column df ''capacity'' ! i))) \<and>
    (issubset [''fuel'', ''efficiency''] (pcolumns df) \<longrightarrow>
      (\<exists>d. load_efficiency df = Inr d \<and>
         map fst d = rev (remdups (rev (column df ''fuel''))) \<and>
         map_of d (column df ''fuel'' ! i) = Some (column df ''efficiency'' ! i)))"
  using dict_of_columns_last_wins [OF assms, of "''capacity''"]
    dict_of_columns_last_wins [OF assms, of "''efficiency''"]
  by (simp add: load_storage_def load_plant_capacity_def load_efficiency_def
      keys_dict_of_columns)

theorem C5_witness:
  "load_storage capacities = Inr [(Text ''coal'', Num 15), (Text ''gas'', Num 20)] \<and>
   load_plant_capacity capacities = Inr [(Text ''coal'', Num 15), (Text ''gas'', Num 20)] \<and>
   load_efficiency capacities = Inr [(Text ''coal'', Num (9/20)), (Text ''gas'', Num (1/2))] \<and>
   column capacities ''fuel'' ! 2 = Text ''coal'' \<and>
   column capacities ''capacity'' ! 2 = Num 15"
proof -
  have i: "2 < length (prows capacities)"
    by (simp add: capacities_def)
  have last: "\<forall>j. 2 < j \<and> j < length (prows capacities) \<longrightarrow>
      column capacities ''fuel'' ! j \<noteq> column capacities ''fuel'' ! 2"
  proof -
    have "length (prows capacities) = 3"
      by (simp add: capacities_def)
    then show ?thesis by auto
  qed
  from C5_attribute_map_last_row_wins [OF i last] show ?thesis
    by (simp add: capacities_def attr_defs)
qed

subsection \<open>What \<^verbatim>\<open>load_prices\<close> returns\<close>

lemma value_at_coerced:
  "i < n \<Longrightarrow> value_at (map (\<lambda>j. to_numeric (cell_at cs j)) [0..<n]) i = to_numeric (cell_at cs i)"
  by (simp add: value_at_def)

lemma frame_bucket_values:
  assumes "i < n"
  shows "present (map (\<lambda>row. value_at (snd row) i)
      (filter (\<lambda>row. P (fst row)) (coerce_all n rs))) =
    numbers (map (\<lambda>row. cell_at (snd row) i) (filter (\<lambda>row. P (fst row)) rs))"
proof (induction rs)
  case Nil
  show ?case by (simp add: coerce_all_def)
next
  case (Cons row rs)
  from Cons have IH: "present (map (\<lambda>row. value_at (snd row) i)
      (filter (\<lambda>row. P (fst row)) (coerce_all n rs))) =
    numbers (map (\<lambda>row. cell_at (snd row) i) (filter (\<lambda>row. P (fst row)) rs))" .
  have step: "coerce_all n (row # rs) =
      (fst row, map (\<lambda>j. to_numeric (cell_at (snd row) j)) [0..<n]) # coerce_all n rs"
    by (simp add: coerce_all_def)
  show ?case
    unfolding step using IH value_at_coerced [OF assms, of "snd row"]
    by (cases "cell_at (snd row) i") simp_all
qed

lemma nan_mean_present: "nan_mean vs = mean (present vs)"
  by (simp add: nan_mean_def mean_def)

lemma bucket_mean_coerced:
  assumes "i < n"
  shows "nan_mean (map (\<lambda>row. value_at (snd row) i)
      (in_bucket r k (window_rows (Some lo) (Some hi) (coerce_all n (rows df))))) =
    mean (raw_values df i lo hi r k)"
  unfolding nan_mean_present in_bucket_def window_rows_Some filter_filter raw_values_def
  using frame_bucket_values [OF assms, of "\<lambda>t. in_window lo hi t \<and> bucket r t = k" "rows df"]
  by simp

lemma window_coerce_all:
  "map fst (window_rows (Some lo) (Some hi) (coerce_all n (rows df))) = window_index df lo hi"
  unfolding window_rows_Some coerce_all_def window_index_def
  by (rule fst_filter_map)

lemma resample_mean_coerced:
  "resample_frame r nan_mean n (window_rows (Some lo) (Some hi) (coerce_all n (rows df))) =
   map (\<lambda>k. (label r k, map (\<lambda>i. mean (raw_values df i lo hi r k)) [0..<n]))
     (bucket_range r (window_index df lo hi))"
  unfolding resample_frame_def window_coerce_all
  by (simp add: bucket_mean_coerced)

lemma length_normalize_columns: "length (normalize_columns cols) = length cols"
  by (simp add: normalize_columns_def)

lemma load_prices_Inr:
  assumes "load_prices df start end' r = Inr out"
    and "monotonic_increasing (map fst (rows df))"
  shows "\<exists>lo hi.
     resolve_start start (map fst (rows df)) = Some lo \<and>
     resolve_end end' (map fst (rows df)) = Some hi \<and>
     out = \<lparr>frame_columns = normalize_columns (columns df),
            frame_rows = resample_frame r nan_mean (length (columns df))
              (window_rows (Some lo) (Some hi) (coerce_all (length (columns df)) (rows df)))\<rparr>"
proof -
  let ?a = "resolve_start start (map fst (rows df))"
  let ?b = "resolve_end end' (map fst (rows df))"
  let ?w = "window_rows ?a ?b (coerce_all (length (columns df)) (rows df))"
  from assms(1) have w: "?w \<noteq> []"
    and out: "out = \<lparr>frame_columns = normalize_columns (columns df),
        frame_rows = resample_frame r nan_mean (length (columns df)) ?w\<rparr>"
    by (auto simp: load_prices_ascending [OF assms(2)] fst_coerce_all length_normalize_columns
        Let_def split: if_splits)
  from window_rows_nonempty [OF w] obtain lo hi where "?a = Some lo" "?b = Some hi"
    by blast
  with out show ?thesis by auto
qed

lemma fold_ts_min_in: "fold ts_min ts t \<in> set (t # ts)"
  by (induction ts arbitrary: t) (auto simp: ts_min_def)

lemma fold_ts_max_in: "fold ts_max ts t \<in> set (t # ts)"
  by (induction ts arbitrary: t) (auto simp: ts_max_def)

lemma index_min_in: "index_min idx = Some a \<Longrightarrow> a \<in> set idx"
  using fold_ts_min_in by (cases idx) auto

lemma index_max_in: "index_max idx = Some b \<Longrightarrow> b \<in> set idx"
  using fold_ts_max_in by (cases idx) auto

lemma bucket_range_between:
  assumes "k \<in> set (bucket_range r idx)"
  shows "\<exists>t1 t2. t1 \<in> set idx \<and> t2 \<in> set idx \<and> bucket r t1 \<le> k \<and> k \<le> bucket r t2"
proof -
  from assms obtain a b where ab: "index_min idx = Some a" "index_max idx = Some b"
    and k: "bucket r a \<le> k" "k \<le> bucket r b"
    by (cases "index_min idx"; cases "index_max idx") (auto simp: bucket_range_def)
  from ab have "a \<in> set idx" "b \<in> set idx"
    by (simp_all add: index_min_in index_max_in)
  with k show ?thesis by blast
qed

lemma window_index_in:
  "t \<in> set (window_index df lo hi) \<longleftrightarrow> t \<in> fst ` set (rows df) \<and> in_window lo hi t"
  by (auto simp: window_index_def)

lemma fuel_prices_loads: "load_prices fuel_prices None None ME = Inr fuel_prices_out"
  by (simp add: fuel_prices_def fuel_prices_out_def prices_defs str_defs window_defs cal_defs
      resample_defs upt_rec)

lemma window_rows_empty_fst:
  "map fst rs = map fst rs' \<Longrightarrow> (window_rows a b rs = []) = (window_rows a b rs' = [])"
proof -
  assume eq: "map fst rs = map fst rs'"
  have "(window_rows a b xs = []) = (window_rows a b (map (\<lambda>t. (t, ())) (map fst xs)) = [])"
    for xs :: "(timestamp \<times> 'x) list"
    by (cases a; cases b) (simp_all add: window_rows_def filter_empty_conv)
  from this [of rs] this [of rs'] eq show ?thesis by simp
qed

lemma load_prices_isl_cong:
  assumes "columns df' = columns df" and "map fst (rows df') = map fst (rows df)"
    and "monotonic_increasing (map fst (rows df))"
  shows "isl (load_prices df' start end' r) = isl (load_prices df start end' r)"
proof -
  from assms(2,3) have "monotonic_increasing (map fst (rows df'))"
    by simp
  from load_prices_ascending [OF this] load_prices_ascending [OF assms(3)]
    assms(1,2) window_rows_empty_fst [OF assms(2)]
  show ?thesis
    by (simp add: Let_def fst_coerce_all window_rows_coerce_all_empty)
qed

text \<open>
  Claim C3, as the source has it. For a file in ascending time order, whenever
  \<^verbatim>\<open>load_prices\<close> returns, the returned frame has one row for every bucket
  from the one of the earliest to the one of the latest row of the window,
  reported under the label of the bucket (for the default rule the midnight of
  the last day of the calendar month). Every
  returned bucket lies between the buckets of two rows of the file that are
  inside the resolved window; the label itself need not lie inside the window.
  Every value is the mean of the numbers that its column holds in the rows of the
  window falling into the bucket, cells that are not numbers left out, and is
  missing when there is no such number.
\<close>

theorem C3_price_buckets_and_means:
  assumes "load_prices df start end' r = Inr out"
    and "monotonic_increasing (map fst (rows df))"
  shows "\<exists>lo hi.
     resolve_start start (map fst (rows df)) = Some lo \<and>
     resolve_end end' (map fst (rows df)) = Some hi \<and>
     frame_rows out =
       map (\<lambda>k. (label r k, map (\<lambda>i. mean (raw_values df i lo hi r k)) [0..<length (columns df)]))
         (bucket_range r (window_index df lo hi)) \<and>
     (\<forall>k\<in>set (bucket_range r (window_index df lo hi)).
        \<exists>t1 t2. t1 \<in> fst ` set (rows df) \<and> in_window lo hi t1 \<and>
                t2 \<in> fst ` set (rows df) \<and> in_window lo hi t2 \<and>
                bucket r t1 \<le> k \<and> k \<le> bucket r t2)"
proof -
  from load_prices_Inr [OF assms(1,2)] obtain lo hi where
    h: "resolve_start start (map fst (rows df)) = Some lo"
       "resolve_end end' (map fst (rows df)) = Some hi"
       "out = \<lparr>frame_columns = normalize_columns (columns df),
            frame_rows = resample_frame r nan_mean (length (columns df))
              (window_rows (Some lo) (Some hi) (coerce_all (length (columns df)) (rows df)))\<rparr>"
    by blast
  have rows: "frame_rows out =
       map (\<lambda>k. (label r k, map (\<lambda>i. mean (raw_values df i lo hi r k)) [0..<length (columns df)]))
         (bucket_range r (window_index df lo hi))"
    unfolding h(3) by (simp add: resample_mean_coerced)
  have between: "\<forall>k\<in>set (bucket_range r (window_index df lo hi)).
        \<exists>t1 t2. t1 \<in> fst ` set (rows df) \<and> in_window lo hi t1 \<and>
                t2 \<in> fst ` set (rows df) \<and> in_window lo hi t2 \<and>
                bucket r t1 \<le> k \<and> k \<le> bucket r t2"
  proof
    fix k assume "k \<in> set (bucket_range r (window_index df lo hi))"
    from bucket_range_between [OF this] show "\<exists>t1 t2. t1 \<in> fst ` set (rows df) \<and>
        in_window lo hi t1 \<and> t2 \<in> fst ` set (rows df) \<and> in_window lo hi t2 \<and>
        bucket r t1 \<le> k \<and> k \<le> bucket r t2"
      unfolding window_index_in by blast
  qed
  from h(1,2) rows between show ?thesis by blast
qed

text \<open>
  The claim as stated, that every bucket timestamp lies in the resolved window,
  fails for a monthly file read with no bounds: the window ends at the last
  timestamp of the file, 2024-02-01, and the bucket of February is reported under
  2024-02-29.
\<close>

theorem C3_label_outside_window:
  "load_prices fuel_prices None None ME = Inr fuel_prices_out \<and>
   resolve_start None (map fst (rows fuel_prices)) = Some (date 2024 1 1) \<and>
   resolve_end None (map fst (rows fuel_prices)) = Some (date 2024 2 1) \<and>
   date 2024 2 29 \<in> fst ` set (frame_rows fuel_prices_out) \<and>
   \<not> in_window (date 2024 1 1) (date 2024 2 1) (date 2024 2 29)"
  using fuel_prices_loads
  by (simp add: fuel_prices_def fuel_prices_out_def window_defs cal_defs in_window_def)

theorem C3_witness:
  "load_prices fuel_prices None None ME = Inr fuel_prices_out \<and>
   monotonic_increasing (map fst (rows fuel_prices)) \<and>
   (\<exists>lo hi.
     resolve_start None (map fst (rows fuel_prices)) = Some lo \<and>
     resolve_end None (map fst (rows fuel_prices)) = Some hi \<and>
     frame_rows fuel_prices_out =
       map (\<lambda>k. (label ME k,
              map (\<lambda>i. mean (raw_values fuel_prices i lo hi ME k))
                [0..<length (columns fuel_prices)]))
         (bucket_range ME (window_index fuel_prices lo hi)) \<and>
     (\<forall>k\<in>set (bucket_range ME (window_index fuel_prices lo hi)).
        \<exists>t1 t2. t1 \<in> fst ` set (rows fuel_prices) \<and> in_window lo hi t1 \<and>
                t2 \<in> fst ` set (rows fuel_prices) \<and> in_window lo hi t2 \<and>
                bucket ME t1 \<le> k \<and> k \<le> bucket ME t2))"
  using fuel_prices_loads example_files_ascending(2)
    C3_price_buckets_and_means [OF fuel_prices_loads example_files_ascending(2)]
  by (intro conjI)

text \<open>
  With the rule \<^verbatim>\<open>"MS"\<close> the label is the first day of the month, which can
  precede the start of the window.
\<close>

lemma month_start_labels_precede_window:
  "load_prices fuel_prices (Some (date 2024 1 10)) None MS =
     Inr \<lparr>frame_columns = [''coal'', ''gas'', ''oil'', ''lignite''],
          frame_rows = [(date 2024 1 1, [Some 110, None, Some 82, None]),
                        (date 2024 2 1, [Some 120, Some 34, Some 90, None])]\<rparr> \<and>
   ts_less (date 2024 1 1) (date 2024 1 10)"
  by (simp add: fuel_prices_def prices_defs str_defs window_defs cal_defs resample_defs
      MS_def month_start_label_def upt_rec)

text \<open>
  Claim C6, as the source has it, for a file in ascending time order. Line 58
  coerces every column, so a column besides coal, gas and oil is kept in the
  returned frame, in its position and under its normalised name, and is treated
  like the required ones: its cells are
  coerced to numbers and the numbers of a bucket averaged. A cell that is not a
  number never raises: a file with the same column names and timestamps loads
  whatever its cells hold.
\<close>

theorem C6_extra_columns_kept_and_coerced:
  assumes "load_prices df start end' r = Inr out"
    and "monotonic_increasing (map fst (rows df))"
    and "columns df' = columns df"
    and "map fst (rows df') = map fst (rows df)"
  shows "frame_columns out = normalize_columns (columns df) \<and>
    (\<exists>lo hi.
       resolve_start start (map fst (rows df)) = Some lo \<and>
       resolve_end end' (map fst (rows df)) = Some hi \<and>
       frame_rows out =
         map (\<lambda>k. (label r k,
                map (\<lambda>i. mean (raw_values df i lo hi r k)) [0..<length (columns df)]))
           (bucket_range r (window_index df lo hi))) \<and>
    \<not> isl (load_prices df' start end' r)"
proof -
  from load_prices_Inr [OF assms(1,2)] obtain lo hi where
    h: "resolve_start start (map fst (rows df)) = Some lo"
       "resolve_end end' (map fst (rows df)) = Some hi"
       "out = \<lparr>frame_columns = normalize_columns (columns df),
            frame_rows = resample_frame r nan_mean (length (columns df))
              (window_rows (Some lo) (Some hi) (coerce_all (length (columns df)) (rows df)))\<rparr>"
    by blast
  have cols: "frame_columns out = normalize_columns (columns df)"
    unfolding h(3) by simp
  have rows: "frame_rows out =
       map (\<lambda>k. (label r k, map (\<lambda>i. mean (raw_values df i lo hi r k)) [0..<length (columns df)]))
         (bucket_range r (window_index df lo hi))"
    unfolding h(3) by (simp add: resample_mean_coerced)
  have "\<not> isl (load_prices df' start end' r)"
    unfolding load_prices_isl_cong [OF assms(3,4,2)] using assms(1) by simp
  with cols h(1,2) rows show ?thesis by blast
qed

text \<open>
  The claim as stated, that a column besides the required ones passes through
  unchanged, fails for an extra column that holds text: with one row, dated on
  the label of its bucket, the prices come back as they are and the text of the
  extra column comes back as a missing value.
\<close>

theorem C6_text_column_becomes_missing:
  "rows prices_with_unit = [(date 2024 1 31, [Num 1, Num 2, Num 3, Text ''EUR/MWh''])] \<and>
   load_prices prices_with_unit None None ME =
     Inr \<lparr>frame_columns = [''coal'', ''gas'', ''oil'', ''unit''],
          frame_rows = [(date 2024 1 31, [Some 1, Some 2, Some 3, None])]\<rparr>"
  by (simp add: prices_with_unit_def prices_defs str_defs window_defs cal_defs resample_defs
      upt_rec)

theorem C6_witness:
  "load_prices fuel_prices None None ME = Inr fuel_prices_out \<and>
   monotonic_increasing (map fst (rows fuel_prices)) \<and>
   frame_columns fuel_prices_out = [''coal'', ''gas'', ''oil'', ''lignite''] \<and>
   \<not> isl (load_prices fuel_prices_text None None ME)"
proof -
  have c: "columns fuel_prices_text = columns fuel_prices"
    by (simp add: fuel_prices_text_def fuel_prices_def)
  have t: "map fst (rows fuel_prices_text) = map fst (rows fuel_prices)"
    by (simp add: fuel_prices_text_def fuel_prices_def)
  from fuel_prices_loads example_files_ascending(2)
    C6_extra_columns_kept_and_coerced [OF fuel_prices_loads example_files_ascending(2) c t]
  show ?thesis by (simp add: fuel_prices_out_def)
qed

subsection \<open>The zone of \<^verbatim>\<open>load_demand\<close>\<close>

lemma col_map_snoc: "col_map (cols @ [c]) = (col_map cols)(py_strip (py_lower c) \<mapsto> c)"
  by (simp add: col_map_def)

lemma col_map_None:
  "col_map cols k = None \<longleftrightarrow> k \<notin> (\<lambda>c. py_strip (py_lower c)) ` set cols"
  by (induction cols rule: rev_induct) (auto simp: col_map_snoc col_map_Nil)

lemma col_map_Some:
  "col_map cols k = Some c \<Longrightarrow> c \<in> set cols \<and> py_strip (py_lower c) = k"
  by (induction cols rule: rev_induct) (auto simp: col_map_snoc col_map_Nil split: if_splits)

lemma frame_columns_scale_to_frame: "frame_columns (scale_to_frame col f s) = [col]"
  by (simp add: scale_to_frame_def)

text \<open>
  Claim C4, as the source has it. When a column name equals the requested zone
  after lower-casing and trimming both, the lookup of the zone succeeds: for a
  file in ascending time order the call fails only through the date window
  (start after end, or no row in the window),
  and otherwise returns a frame whose single column carries the name of a matching
  column as the file writes it. When no column name matches, the call fails with
  the error that lists the available columns, the first 20 names followed by
  "..." when there are more (or, for a file with no column besides the
  timestamp, with the error for too few columns); both are \<^verbatim>\<open>ValueError\<close> in
  the source, the failures the specification calls FormatError.
\<close>

theorem C4_zone_lookup:
  "(monotonic_increasing (map fst (rows df)) \<and>
    py_strip (py_lower zone) \<in> (\<lambda>c. py_strip (py_lower c)) ` set (columns df) \<longrightarrow>
      (\<exists>col out.
         col \<in> set (columns df) \<and> py_strip (py_lower col) = py_strip (py_lower zone) \<and>
         frame_columns out = [col] \<and>
         load_demand df start end' r zone supply_factor =
           (if ts_gt (resolve_start start (map fst (rows df)))
                 (resolve_end end' (map fst (rows df)))
            then Inl (ValueError StartAfterEnd)
            else if empty_window (resolve_start start (map fst (rows df)))
                      (resolve_end end' (map fst (rows df))) (map fst (rows df))
            then Inl (ValueError NoData)
            else Inr out))) \<and>
   (py_strip (py_lower zone) \<notin> (\<lambda>c. py_strip (py_lower c)) ` set (columns df) \<longrightarrow>
      (\<exists>names. names = take 20 (columns df) \<and> length names \<le> 20 \<and>
         load_demand df start end' r zone supply_factor =
           Inl (ValueError
             (if columns df = [] then NeedsZoneColumn
              else ZoneNotFound zone
                     (names @ (if 20 < length (columns df) then [''...''] else []))))))"
proof (intro conjI impI)
  assume asm: "monotonic_increasing (map fst (rows df)) \<and>
    py_strip (py_lower zone) \<in> (\<lambda>c. py_strip (py_lower c)) ` set (columns df)"
  then have mono: "monotonic_increasing (map fst (rows df))"
    by simp
  from asm have "py_strip (py_lower zone) \<in> (\<lambda>c. py_strip (py_lower c)) ` set (columns df)"
    by simp
  then obtain col where col: "col_map (columns df) (py_strip (py_lower zone)) = Some col"
    using col_map_None [of "columns df" "py_strip (py_lower zone)"] by auto
  from col_map_Some [OF col]
  have c: "col \<in> set (columns df)" "py_strip (py_lower col) = py_strip (py_lower zone)"
    by simp_all
  then have ne: "columns df \<noteq> []" by auto
  let ?a = "resolve_start start (map fst (rows df))"
  let ?b = "resolve_end end' (map fst (rows df))"
  let ?out = "scale_to_frame col supply_factor
      (resample r nan_sum (window_rows ?a ?b (selected_series col df)))"
  have "load_demand df start end' r zone supply_factor =
      (if ts_gt ?a ?b then Inl (ValueError StartAfterEnd)
       else if empty_window ?a ?b (map fst (rows df)) then Inl (ValueError NoData)
       else Inr ?out)"
    using col ne
    by (cases "columns df")
      (simp_all add: load_demand_ascending [OF mono] Let_def fst_selected_series
        window_rows_selected_series_empty window_rows_empty_window)
  with c frame_columns_scale_to_frame [of col supply_factor]
  show "\<exists>col out.
         col \<in> set (columns df) \<and> py_strip (py_lower col) = py_strip (py_lower zone) \<and>
         frame_columns out = [col] \<and>
         load_demand df start end' r zone supply_factor =
           (if ts_gt ?a ?b then Inl (ValueError StartAfterEnd)
            else if empty_window ?a ?b (map fst (rows df)) then Inl (ValueError NoData)
            else Inr out)"
    by blast
next
  assume "py_strip (py_lower zone) \<notin> (\<lambda>c. py_strip (py_lower c)) ` set (columns df)"
  then have none: "col_map (columns df) (py_strip (py_lower zone)) = None"
    by (simp add: col_map_None)
  have "load_demand df start end' r zone supply_factor =
      Inl (ValueError
        (if columns df = [] then NeedsZoneColumn
         else ZoneNotFound zone
                (take 20 (columns df) @ (if 20 < length (columns df) then [''...''] else []))))"
    using none by (cases "columns df") (simp_all add: load_demand_def available_sample_def)
  then show "\<exists>names. names = take 20 (columns df) \<and> length names \<le> 20 \<and>
         load_demand df start end' r zone supply_factor =
           Inl (ValueError
             (if columns df = [] then NeedsZoneColumn
              else ZoneNotFound zone
                     (names @ (if 20 < length (columns df) then [''...''] else []))))"
    by simp
qed

text \<open>
  The claim as stated, that the call succeeds for every file with a matching
  column, fails when the date window is ill ordered or holds no row: the zone
  \<^verbatim>\<open>dk_2\<close> matches the column \<^verbatim>\<open>DK_2\<close> of the hourly file, and the call raises
  for a start after the end, and for a window in 2025.
\<close>

theorem C4_matching_zone_can_fail:
  "''DK_2'' \<in> set (columns hourly_demand) \<and>
   py_strip (py_lower ''DK_2'') = py_strip (py_lower ''dk_2'') \<and>
   load_demand hourly_demand (Some (date 2024 6 1)) (Some (date 2024 1 15)) ME ''dk_2'' (1/2) =
     Inl (ValueError StartAfterEnd) \<and>
   load_demand hourly_demand (Some (date 2025 1 1)) (Some (date 2025 6 1)) ME ''dk_2'' (1/2) =
     Inl (ValueError NoData)"
  by (simp add: hourly_demand_def demand_defs str_defs window_defs cal_defs)

theorem C4_witness:
  "monotonic_increasing (map fst (rows demand_with_gap)) \<and>
   load_demand demand_with_gap None None ME ''dk_2'' (1/2) = Inr demand_with_gap_out \<and>
   frame_columns demand_with_gap_out = [''DK_2''] \<and>
   load_demand demand_with_gap None None ME ''dk_9'' (1/2) =
     Inl (ValueError (ZoneNotFound ''dk_9'' [''DK_1'', ''DK_2''])) \<and>
   load_demand wide_demand None None ME ''dk_9'' (1/2) =
     Inl (ValueError (ZoneNotFound ''dk_9'' ([''Z01'', ''Z02'', ''Z03'', ''Z04'', ''Z05'', ''Z06'', ''Z07'', ''Z08'', ''Z09'', ''Z10'', ''Z11'', ''Z12'', ''Z13'', ''Z14'', ''Z15'', ''Z16'', ''Z17'', ''Z18'', ''Z19'', ''Z20''] @ [''...''])))"
proof -
  have match: "py_strip (py_lower ''dk_2'') \<in>
      (\<lambda>c. py_strip (py_lower c)) ` set (columns demand_with_gap)"
    by (simp add: demand_with_gap_def str_defs)
  have nomatch: "py_strip (py_lower ''dk_9'') \<notin>
      (\<lambda>c. py_strip (py_lower c)) ` set (columns demand_with_gap)"
    by (simp add: demand_with_gap_def str_defs)
  have wide: "py_strip (py_lower ''dk_9'') \<notin>
      (\<lambda>c. py_strip (py_lower c)) ` set (columns wide_demand)"
    by (simp add: wide_demand_def str_defs)
  have cols: "columns demand_with_gap = [''DK_1'', ''DK_2'']"
    "columns wide_demand = [''Z01'', ''Z02'', ''Z03'', ''Z04'', ''Z05'', ''Z06'', ''Z07'', ''Z08'', ''Z09'', ''Z10'', ''Z11'', ''Z12'', ''Z13'', ''Z14'', ''Z15'', ''Z16'', ''Z17'', ''Z18'', ''Z19'', ''Z20'', ''Z21'', ''Z22'']"
    by (simp_all add: demand_with_gap_def wide_demand_def)
  from C4_zone_lookup [of demand_with_gap "''dk_2''" None None ME "1/2"] match
    example_files_ascending(1)
  have a: "\<exists>col out. col \<in> set (columns demand_with_gap) \<and>
      py_strip (py_lower col) = py_strip (py_lower ''dk_2'') \<and> frame_columns out = [col] \<and>
      load_demand demand_with_gap None None ME ''dk_2'' (1/2) =
        (if ts_gt (resolve_start None (map fst (rows demand_with_gap)))
              (resolve_end None (map fst (rows demand_with_gap)))
         then Inl (ValueError StartAfterEnd)
         else if empty_window (resolve_start None (map fst (rows demand_with_gap)))
                   (resolve_end None (map fst (rows demand_with_gap)))
                   (map fst (rows demand_with_gap))
         then Inl (ValueError NoData) else Inr out)"
    by blast
  from C4_zone_lookup [of demand_with_gap "''dk_9''" None None ME "1/2"] nomatch
  have b: "load_demand demand_with_gap None None ME ''dk_9'' (1/2) =
     Inl (ValueError (ZoneNotFound ''dk_9'' [''DK_1'', ''DK_2'']))"
    by (simp add: cols)
  from C4_zone_lookup [of wide_demand "''dk_9''" None None ME "1/2"] wide
  have c: "load_demand wide_demand None None ME ''dk_9'' (1/2) =
     Inl (ValueError (ZoneNotFound ''dk_9'' ([''Z01'', ''Z02'', ''Z03'', ''Z04'', ''Z05'', ''Z06'', ''Z07'', ''Z08'', ''Z09'', ''Z10'', ''Z11'', ''Z12'', ''Z13'', ''Z14'', ''Z15'', ''Z16'', ''Z17'', ''Z18'', ''Z19'', ''Z20''] @ [''...''])))"
    by (simp add: cols)
  from a b c demand_with_gap_loads example_files_ascending(1) show ?thesis
    by (simp add: demand_with_gap_out_def)
qed


subsection \<open>Files that are not in ascending time order\<close>

text \<open>
  The properties above are stated for files in ascending time order. On other
  files \<^verbatim>\<open>df.loc\<close> cuts by the positions of the bounds. With the February row
  first and no bounds, the slice runs from the earliest timestamp (the second
  row) to the latest (the third) and leaves the February row out. On a descending
  file the earliest timestamp stands after the latest, the slice is empty and the
  call fails. A bound that is not in an index that is not monotonic raises
  \<^verbatim>\<open>KeyError\<close>. And a row later than the end bound is taken when it stands before
  the row of the bound.
\<close>

lemmas slice_defs = occurrences_def contiguous_def

lemma unsorted_file_drops_rows:
  "load_demand unsorted_demand None None ME ''DK_2'' 1 =
     Inr \<lparr>frame_columns = [''DK_2''],
          frame_rows = [(date 2024 1 31, [Some 10]), (date 2024 2 29, [Some 0]),
                        (date 2024 3 31, [Some 8])]\<rparr>"
  by (simp add: unsorted_demand_def demand_defs str_defs window_defs slice_defs cal_defs
      resample_defs upt_rec)

lemma descending_file_has_no_data:
  "load_demand descending_demand None None ME ''DK_2'' 1 = Inl (ValueError NoData)"
  by (simp add: descending_demand_def demand_defs str_defs window_defs slice_defs cal_defs
      resample_defs upt_rec)

lemma absent_bound_raises_KeyError:
  "load_demand unsorted_demand (Some (date 2024 1 1)) None ME ''DK_2'' 1 = Inl KeyError"
  by (simp add: unsorted_demand_def demand_defs str_defs window_defs slice_defs cal_defs
      resample_defs upt_rec)

lemma row_after_end_is_taken:
  "load_demand late_row_demand None (Some (date 2024 1 15)) ME ''DK_2'' 1 =
     Inr \<lparr>frame_columns = [''DK_2''], frame_rows = [(date 2024 1 31, [Some 5])]\<rparr>"
  by (simp add: late_row_demand_def demand_defs str_defs window_defs slice_defs cal_defs
      resample_defs upt_rec)

end
